theory Spec2Isabelle
  imports Complex_Main
begin

section \<open>Tensors\<close>

text \<open>
  The training script works on PyTorch tensors. A one-dimensional float tensor is a list
  of numbers, a two-dimensional one the list of its rows (first index: the example of the
  batch). The float elements are idealised as real numbers, \<open>torch.log\<close> as \<open>ln\<close>.
  An operation that PyTorch or Python refuses at run time returns the exception as a
  value.
\<close>

datatype error = IndexError | RuntimeError | TypeError | FileNotFoundError | EvaluationError

type_synonym tensor1 = "real list"
type_synonym tensor2 = "real list list"

definition bind_err :: "error + 'a \<Rightarrow> ('a \<Rightarrow> error + 'b) \<Rightarrow> error + 'b" where
  "bind_err m f = (case m of Inl e \<Rightarrow> Inl e | Inr x \<Rightarrow> f x)"

text \<open>\<open>t[:, di]\<close>: column \<open>di\<close> of a two-dimensional tensor.\<close>

definition select_col :: "'a list list \<Rightarrow> nat \<Rightarrow> error + 'a list" where
  "select_col t di =
     (if list_all (\<lambda>row. di < length row) t then Inr (map (\<lambda>row. row ! di) t)
      else Inl IndexError)"

text \<open>
  \<open>torch.gather(input, 1, index.unsqueeze(1)).squeeze()\<close>: entry \<open>b\<close> of the result is
  \<open>input[b][index[b]]\<close>. The index may have fewer rows than the input, and each index
  must lie inside its row.
\<close>

definition gather :: "tensor2 \<Rightarrow> int list \<Rightarrow> error + tensor1" where
  "gather input index =
     (if length index \<le> length input
         \<and> list_all (\<lambda>(row, i). 0 \<le> i \<and> i < int (length row)) (zip input index)
      then Inr (map (\<lambda>(row, i). row ! nat i) (zip input index))
      else Inl RuntimeError)"

text \<open>
  Element-wise binary operations on tensors of the same shape. (Broadcasting of a
  dimension of size one against a larger one is outside the model: the adapter gives
  every tensor of a batch the same leading dimension.)
\<close>

definition elementwise :: "(real \<Rightarrow> real \<Rightarrow> real) \<Rightarrow> tensor1 \<Rightarrow> tensor1 \<Rightarrow> error + tensor1" where
  "elementwise f xs ys =
     (if length xs = length ys then Inr (map (\<lambda>(x, y). f x y) (zip xs ys))
      else Inl RuntimeError)"

definition elementwise2 :: "(real \<Rightarrow> real \<Rightarrow> real) \<Rightarrow> tensor2 \<Rightarrow> tensor2 \<Rightarrow> error + tensor2" where
  "elementwise2 f xs ys =
     (if map length xs = map length ys
      then Inr (map (\<lambda>(x, y). map (\<lambda>(a, b). f a b) (zip x y)) (zip xs ys))
      else Inl RuntimeError)"

text \<open>\<open>torch.sum(t, 1)\<close>: the sum of each row.\<close>

definition sum_dim1 :: "tensor2 \<Rightarrow> tensor1" where
  "sum_dim1 t = map sum_list t"

text \<open>
  \<open>torch.stack(ts, 1)\<close> of one-dimensional tensors: row \<open>b\<close> of the result lists entry
  \<open>b\<close> of every tensor. The list must not be empty and the tensors must have one size.
\<close>

definition stack_dim1 :: "tensor1 list \<Rightarrow> error + tensor2" where
  "stack_dim1 ts =
     (case ts of
        [] \<Rightarrow> Inl RuntimeError
      | t # _ \<Rightarrow>
          if list_all (\<lambda>u. length u = length t) ts
          then Inr (map (\<lambda>b. map (\<lambda>u. u ! b) ts) [0..<length t])
          else Inl RuntimeError)"

text \<open>\<open>torch.mean\<close> of a one-dimensional tensor.\<close>

definition mean :: "tensor1 \<Rightarrow> real" where
  "mean xs = sum_list xs / real (length xs)"

section \<open>Coverage loss of one decode step\<close>

text \<open>
  \<open>torch.sum(torch.min(attn_dist, coverage), 1)\<close> (train.py, lines 118-119). The coverage
  is \<open>None\<close> when the adapter runs with coverage disabled.
\<close>

definition step_coverage_loss :: "tensor2 \<Rightarrow> tensor2 option \<Rightarrow> error + tensor1" where
  "step_coverage_loss attn_dist coverage =
     (case coverage of
        None \<Rightarrow> Inl TypeError
      | Some cov \<Rightarrow> bind_err (elementwise2 min attn_dist cov) (\<lambda>m. Inr (sum_dim1 m)))"

section \<open>Configuration\<close>

text \<open>
  The module \<open>data_util.config\<close> is read by train.py and is not part of it: the options
  train.py reads are the fields of a record that every function takes.
\<close>

record config =
  is_coverage :: bool
  lr :: real
  lr_coverage :: real
  adagrad_init_acc :: real
  max_dec_steps :: int
  eps :: real
  cov_loss_wt :: real
  max_grad_norm :: real

section \<open>The decoding loop of \<open>train_one_batch\<close> (train.py, lines 105-125)\<close>

text \<open>
  One call of \<open>self.model.decoder\<close>, with the arguments that do not change during the
  loop already supplied: it takes \<open>y_t_1\<close>, \<open>s_t_1\<close>, \<open>c_t_1\<close>, \<open>coverage\<close> and \<open>di\<close>
  and returns \<open>(final_dist, s_t_1, c_t_1, attn_dist, p_gen, next_coverage)\<close>.
\<close>

type_synonym 's decoder_call =
  "int list \<Rightarrow> 's \<Rightarrow> tensor2 \<Rightarrow> tensor2 option \<Rightarrow> nat
     \<Rightarrow> tensor2 \<times> 's \<times> tensor2 \<times> tensor2 \<times> tensor2 option \<times> tensor2 option"

text \<open>The variables the loop carries: \<open>(s_t_1, c_t_1, coverage, step_losses)\<close>.\<close>

type_synonym 's loop_vars = "'s \<times> tensor2 \<times> tensor2 option \<times> tensor1 list"

definition decode_step ::
  "config \<Rightarrow> 's decoder_call \<Rightarrow> int list list \<Rightarrow> int list list \<Rightarrow> tensor2 \<Rightarrow> nat
     \<Rightarrow> 's loop_vars \<Rightarrow> error + 's loop_vars" where
  "decode_step cfg dec dec_batch target_batch dec_padding_mask di vars =
     (case vars of (s_t_1, c_t_1, coverage, step_losses) \<Rightarrow>
      bind_err (select_col dec_batch di) (\<lambda>y_t_1.
      case dec y_t_1 s_t_1 c_t_1 coverage di of
        (final_dist, s_t_1', c_t_1', attn_dist, p_gen, next_coverage) \<Rightarrow>
      bind_err (select_col target_batch di) (\<lambda>target.
      bind_err (gather final_dist target) (\<lambda>gold_probs.
      let step_loss = map (\<lambda>p. - ln (p + eps cfg)) gold_probs in
      bind_err
        (if is_coverage cfg then
           bind_err (step_coverage_loss attn_dist coverage) (\<lambda>cov_loss.
           bind_err (elementwise (+) step_loss (map (\<lambda>x. cov_loss_wt cfg * x) cov_loss))
             (\<lambda>step_loss'. Inr (step_loss', next_coverage)))
         else Inr (step_loss, coverage))
        (\<lambda>(step_loss', coverage').
      bind_err (select_col dec_padding_mask di) (\<lambda>step_mask.
      bind_err (elementwise (*) step_loss' step_mask) (\<lambda>masked.
      Inr (s_t_1', c_t_1', coverage', step_losses @ [masked]))))))))"

text \<open>A \<open>for\<close> loop over a list of indices whose body may raise.\<close>

fun for_loop :: "(nat \<Rightarrow> 'v \<Rightarrow> error + 'v) \<Rightarrow> nat list \<Rightarrow> 'v \<Rightarrow> error + 'v" where
  "for_loop body [] vars = Inr vars"
| "for_loop body (di # dis) vars = bind_err (body di vars) (for_loop body dis)"

text \<open>\<open>range(min(max_dec_len, config.max_dec_steps))\<close>: empty when the bound is not positive.\<close>

definition decode_range :: "config \<Rightarrow> int \<Rightarrow> nat list" where
  "decode_range cfg max_dec_len = [0..<nat (min max_dec_len (max_dec_steps cfg))]"

definition decode_loop ::
  "config \<Rightarrow> 's decoder_call \<Rightarrow> int list list \<Rightarrow> int list list \<Rightarrow> tensor2 \<Rightarrow> nat list
     \<Rightarrow> 's loop_vars \<Rightarrow> error + 's loop_vars" where
  "decode_loop cfg dec dec_batch target_batch dec_padding_mask dis vars =
     for_loop (decode_step cfg dec dec_batch target_batch dec_padding_mask) dis vars"

text \<open>
  A decoder instrumented with a log of its calls: it behaves like \<open>dec\<close> on the first
  component of its state and appends the step index and the tokens it was given to the
  second.
\<close>

definition logged :: "'s decoder_call \<Rightarrow> ('s \<times> (nat \<times> int list) list) decoder_call" where
  "logged dec y_t_1 sl c cov di =
     (case dec y_t_1 (fst sl) c cov di of
        (final_dist, s', c', attn_dist, p_gen, next_coverage) \<Rightarrow>
          (final_dist, (s', snd sl @ [(di, y_t_1)]), c', attn_dist, p_gen, next_coverage))"

section \<open>The loss of a batch (train.py, lines 127-129)\<close>

definition batch_loss :: "tensor1 list \<Rightarrow> tensor1 \<Rightarrow> error + real" where
  "batch_loss step_losses dec_lens_var =
     bind_err (stack_dim1 step_losses) (\<lambda>stacked.
     let sum_losses = sum_dim1 stacked in
     bind_err (elementwise (/) sum_losses dec_lens_var) (\<lambda>batch_avg_loss.
     Inr (mean batch_avg_loss)))"

text \<open>Lines 105-129 together: the loss of a batch from the start of the decoding loop.\<close>

definition forward_loss ::
  "config \<Rightarrow> 's decoder_call \<Rightarrow> int list list \<Rightarrow> tensor2 \<Rightarrow> int \<Rightarrow> tensor1 \<Rightarrow> int list list
     \<Rightarrow> 's \<Rightarrow> tensor2 \<Rightarrow> tensor2 option \<Rightarrow> error + real" where
  "forward_loss cfg dec dec_batch dec_padding_mask max_dec_len dec_lens_var target_batch
       s_t_1 c_t_1 coverage =
     bind_err
       (decode_loop cfg dec dec_batch target_batch dec_padding_mask
          (decode_range cfg max_dec_len) (s_t_1, c_t_1, coverage, []))
       (\<lambda>(s_t_1', c_t_1', coverage', step_losses). batch_loss step_losses dec_lens_var)"

section \<open>The model, the optimizer and the checkpoints\<close>

text \<open>
  A parameter group (\<open>self.model.encoder\<close>, \<open>.decoder\<close>, \<open>.reduce_state\<close>) holds its
  parameter values, flattened, and their gradients (\<open>.grad\<close>). Its \<open>state_dict()\<close> is the
  list of parameter values.
\<close>

record group =
  parameters :: "real list"
  grad :: "real list"

record model =
  encoder :: group
  decoder :: group
  reduce_state :: group

text \<open>
  Modelled from the spec: \<open>custom_adagrad.AdagradCustom\<close> is imported by train.py and is
  not under src/. The optimizer state is a learning rate and one accumulator per
  parameter; the constructor initialises every accumulator to the configured constant;
  \<open>state_dict()\<close> is the state itself and \<open>load_state_dict\<close> replaces it.
\<close>

record adagrad =
  opt_lr :: real
  accumulator :: "real list"

definition AdagradCustom :: "real list \<Rightarrow> real \<Rightarrow> real \<Rightarrow> adagrad" where
  "AdagradCustom params lr0 initial_accumulator_value =
     \<lparr>opt_lr = lr0, accumulator = map (\<lambda>p. initial_accumulator_value) params\<rparr>"

definition load_state_dict :: "adagrad \<Rightarrow> adagrad \<Rightarrow> adagrad" where
  "load_state_dict opt sd = sd"

text \<open>\<open>self.optimizer.zero_grad()\<close>: every gradient becomes zero.\<close>

definition zero_group :: "group \<Rightarrow> group" where
  "zero_group g = g\<lparr>grad := map (\<lambda>x. 0) (grad g)\<rparr>"

definition zero_grad :: "model \<Rightarrow> model" where
  "zero_grad m =
     m\<lparr>encoder := zero_group (encoder m), decoder := zero_group (decoder m),
       reduce_state := zero_group (reduce_state m)\<rparr>"

text \<open>
  The dictionary \<open>state\<close> that \<open>save_model\<close> writes, with its six keys \<open>'iter'\<close>,
  \<open>'encoder_state_dict'\<close>, \<open>'decoder_state_dict'\<close>, \<open>'reduce_state_dict'\<close>, \<open>'optimizer'\<close>
  and \<open>'current_loss'\<close>.
\<close>

record checkpoint =
  saved_iter :: int
  encoder_state_dict :: "real list"
  decoder_state_dict :: "real list"
  reduce_state_dict :: "real list"
  optimizer_state_dict :: adagrad
  current_loss :: real

text \<open>The disk: \<open>torch.save\<close> writes a file, \<open>torch.load\<close> reads it or fails.\<close>

type_synonym disk = "string \<rightharpoonup> checkpoint"

definition torch_save :: "checkpoint \<Rightarrow> string \<Rightarrow> disk \<Rightarrow> disk" where
  "torch_save state path files = files(path \<mapsto> state)"

definition torch_load :: "disk \<Rightarrow> string \<Rightarrow> error + checkpoint" where
  "torch_load files path = (case files path of None \<Rightarrow> Inl FileNotFoundError | Some state \<Rightarrow> Inr state)"

text \<open>
  The \<open>Train\<close> object, with the parts of the world its methods act on: how many batches
  its batcher has handed out, and the checkpoint files on disk. \<open>self.norm\<close> does not
  exist before the first batch. (The vocabulary, the summary writer and the logger are
  left out: no result of train.py depends on them.)
\<close>

record train =
  model :: model
  optimizer :: adagrad
  self_norm :: "real option"
  model_dir :: string
  batcher_pos :: nat
  files :: disk

text \<open>
  What train.py calls and does not define: the constructor and the three forward
  functions of the model (given the parameters of their group), the adapter of
  \<open>train_util\<close>, automatic differentiation, gradient clipping, the optimizer's step,
  the batcher (its \<open>k\<close>-th batch), the running average, the clock (the time at which the
  checkpoint of an iteration is written) and the beam-search evaluator (the exception
  it raises, if any).
\<close>

record ('b, 'eo, 'ef, 'h, 's) env =
  Model :: "disk \<Rightarrow> string option \<Rightarrow> error + model"
  encoder_fwd :: "real list \<Rightarrow> int list list \<Rightarrow> int list \<Rightarrow> 'eo \<times> 'ef \<times> 'h"
  reduce_state_fwd :: "real list \<Rightarrow> 'h \<Rightarrow> 's"
  decoder_fwd ::
    "real list \<Rightarrow> int list \<Rightarrow> 's \<Rightarrow> 'eo \<Rightarrow> 'ef \<Rightarrow> tensor2 \<Rightarrow> tensor2 \<Rightarrow> tensor2 option
       \<Rightarrow> int list list option \<Rightarrow> tensor2 option \<Rightarrow> nat
       \<Rightarrow> tensor2 \<times> 's \<times> tensor2 \<times> tensor2 \<times> tensor2 option \<times> tensor2 option"
  get_input_from_batch ::
    "'b \<Rightarrow> int list list \<times> tensor2 \<times> int list \<times> int list list option \<times> tensor2 option
       \<times> tensor2 \<times> tensor2 option"
  get_output_from_batch :: "'b \<Rightarrow> int list list \<times> tensor2 \<times> int \<times> tensor1 \<times> int list list"
  backward :: "model \<Rightarrow> 'b \<Rightarrow> model"
  clip_grad_norm :: "real list \<Rightarrow> real \<Rightarrow> real list \<times> real"
  optimizer_step :: "adagrad \<Rightarrow> model \<Rightarrow> adagrad \<times> model"
  next_batch :: "nat \<Rightarrow> 'b"
  calc_running_avg_loss :: "real \<Rightarrow> real \<Rightarrow> int \<Rightarrow> real"
  time_time :: "int \<Rightarrow> int"
  beam_search_decode :: "disk \<Rightarrow> string \<Rightarrow> error option"

section \<open>\<open>save_model\<close> (train.py, lines 48-60)\<close>

text \<open>\<open>'%d' % n\<close>: the decimal digits of an integer, with a sign when negative.\<close>

fun digits :: "nat \<Rightarrow> string" where
  "digits n =
     (if n < 10 then [''0123456789'' ! n]
      else digits (n div 10) @ [''0123456789'' ! (n mod 10)])"

declare digits.simps [simp del]

definition str_of_int :: "int \<Rightarrow> string" where
  "str_of_int i = (if i < 0 then CHR ''-'' # digits (nat (- i)) else digits (nat i))"

text \<open>\<open>os.path.join(a, b)\<close> for a relative \<open>b\<close>.\<close>

definition path_join :: "string \<Rightarrow> string \<Rightarrow> string" where
  "path_join a b = (if a = [] \<or> last a = CHR ''/'' then a @ b else a @ ''/'' @ b)"

definition save_model ::
  "('b, 'eo, 'ef, 'h, 's) env \<Rightarrow> train \<Rightarrow> real \<Rightarrow> int \<Rightarrow> train \<times> string" where
  "save_model env self running_avg_loss iter =
     (let state =
            \<lparr>saved_iter = iter,
             encoder_state_dict = parameters (encoder (model self)),
             decoder_state_dict = parameters (decoder (model self)),
             reduce_state_dict = parameters (reduce_state (model self)),
             optimizer_state_dict = optimizer self,
             current_loss = running_avg_loss\<rparr>;
          model_save_path =
            path_join (model_dir self)
              (''model_'' @ str_of_int iter @ ''_'' @ str_of_int (time_time env iter))
      in (self\<lparr>files := torch_save state model_save_path (files self)\<rparr>, model_save_path))"

section \<open>\<open>setup_train\<close> (train.py, lines 62-91)\<close>

text \<open>
  Lines 85-89 move the loaded optimizer state to the GPU; the move does not change a
  value and is left out.
\<close>

definition setup_train ::
  "('b, 'eo, 'ef, 'h, 's) env \<Rightarrow> config \<Rightarrow> train \<Rightarrow> string option
     \<Rightarrow> error + train \<times> int \<times> real" where
  "setup_train env cfg self model_file_path =
     bind_err (Model env (files self) model_file_path) (\<lambda>m.
     let params = parameters (encoder m) @ parameters (decoder m) @ parameters (reduce_state m);
         initial_lr = (if is_coverage cfg then lr_coverage cfg else lr cfg);
         opt = AdagradCustom params initial_lr (adagrad_init_acc cfg);
         self' = self\<lparr>model := m, optimizer := opt\<rparr>
     in case model_file_path of
          None \<Rightarrow> Inr (self', 0, 0)
        | Some path \<Rightarrow>
            bind_err (torch_load (files self') path) (\<lambda>state.
            let start_iter = saved_iter state;
                start_loss = current_loss state
            in if \<not> is_coverage cfg
               then Inr (self'\<lparr>optimizer := load_state_dict opt (optimizer_state_dict state)\<rparr>,
                         start_iter, start_loss)
               else Inr (self', start_iter, start_loss)))"

section \<open>\<open>train_one_batch\<close> (train.py, lines 93-141)\<close>

text \<open>Lines 133-137: the three calls of \<open>clip_grad_norm_\<close>; the first one's result is kept.\<close>

definition clip_gradients ::
  "('b, 'eo, 'ef, 'h, 's) env \<Rightarrow> config \<Rightarrow> model \<Rightarrow> model \<times> real" where
  "clip_gradients env cfg m =
     (case clip_grad_norm env (grad (encoder m)) (max_grad_norm cfg) of (g_enc, total_norm) \<Rightarrow>
      case clip_grad_norm env (grad (decoder m)) (max_grad_norm cfg) of (g_dec, n_dec) \<Rightarrow>
      case clip_grad_norm env (grad (reduce_state m)) (max_grad_norm cfg) of (g_red, n_red) \<Rightarrow>
        (m\<lparr>encoder := (encoder m)\<lparr>grad := g_enc\<rparr>,
           decoder := (decoder m)\<lparr>grad := g_dec\<rparr>,
           reduce_state := (reduce_state m)\<lparr>grad := g_red\<rparr>\<rparr>, total_norm))"

definition train_one_batch ::
  "('b, 'eo, 'ef, 'h, 's) env \<Rightarrow> config \<Rightarrow> train \<Rightarrow> 'b \<Rightarrow> error + train \<times> real" where
  "train_one_batch env cfg self batch =
     (case get_input_from_batch env batch of
        (enc_batch, enc_padding_mask, enc_lens, enc_batch_extend_vocab, extra_zeros, c_t_1,
         coverage) \<Rightarrow>
      case get_output_from_batch env batch of
        (dec_batch, dec_padding_mask, max_dec_len, dec_lens_var, target_batch) \<Rightarrow>
      let m0 = zero_grad (model self) in
      case encoder_fwd env (parameters (encoder m0)) enc_batch enc_lens of
        (encoder_outputs, encoder_feature, encoder_hidden) \<Rightarrow>
      let s_t_1 = reduce_state_fwd env (parameters (reduce_state m0)) encoder_hidden in
      bind_err
        (forward_loss cfg
           (\<lambda>y_t_1 s c cov di.
              decoder_fwd env (parameters (decoder m0)) y_t_1 s encoder_outputs encoder_feature
                enc_padding_mask c extra_zeros enc_batch_extend_vocab cov di)
           dec_batch dec_padding_mask max_dec_len dec_lens_var target_batch s_t_1 c_t_1 coverage)
        (\<lambda>loss.
      let m1 = backward env m0 batch in
      case clip_gradients env cfg m1 of (m2, total_norm) \<Rightarrow>
      case optimizer_step env (optimizer self) m2 of (opt, m3) \<Rightarrow>
        Inr (self\<lparr>model := m3, optimizer := opt, self_norm := Some total_norm\<rparr>, loss)))"

section \<open>\<open>trainIters\<close> (train.py, lines 143-178)\<close>

text \<open>
  One pass through the body of the \<open>while\<close> loop, on the loop variables
  \<open>(self, iter, running_avg_loss)\<close>. An exception of \<open>train_one_batch\<close> or of the
  evaluator leaves the loop.
\<close>

definition train_iteration ::
  "('b, 'eo, 'ef, 'h, 's) env \<Rightarrow> config \<Rightarrow> bool \<Rightarrow> train \<times> int \<times> real
     \<Rightarrow> error + train \<times> int \<times> real" where
  "train_iteration env cfg evaluate vars =
     (case vars of (self, iter, running_avg_loss) \<Rightarrow>
      let batch = next_batch env (batcher_pos self);
          self1 = self\<lparr>batcher_pos := batcher_pos self + 1\<rparr>
      in bind_err (train_one_batch env cfg self1 batch) (\<lambda>(self2, loss).
      let running_avg_loss' = calc_running_avg_loss env loss running_avg_loss iter;
          iter' = iter + 1
      in if iter' mod 5000 = 0 then
           (case save_model env self2 running_avg_loss' iter' of (self3, model_path) \<Rightarrow>
            if evaluate then
              (case beam_search_decode env (files self3) model_path of
                 Some e \<Rightarrow> Inl e
               | None \<Rightarrow> Inr (self3, iter', running_avg_loss'))
            else Inr (self3, iter', running_avg_loss'))
         else Inr (self2, iter', running_avg_loss')))"

lemma train_iteration_iter:
  "train_iteration env cfg evaluate (self, iter, l) = Inr vars \<Longrightarrow> fst (snd vars) = iter + 1"
  by (auto simp: train_iteration_def bind_err_def Let_def
           split: sum.splits prod.splits if_splits option.splits)

function trainIters_loop ::
  "('b, 'eo, 'ef, 'h, 's) env \<Rightarrow> config \<Rightarrow> int \<Rightarrow> bool \<Rightarrow> train \<times> int \<times> real
     \<Rightarrow> error + train \<times> int \<times> real" where
  "trainIters_loop env cfg n_iters evaluate (self, iter, running_avg_loss) =
     (if iter < n_iters then
        (case train_iteration env cfg evaluate (self, iter, running_avg_loss) of
           Inl e \<Rightarrow> Inl e
         | Inr vars \<Rightarrow> trainIters_loop env cfg n_iters evaluate vars)
      else Inr (self, iter, running_avg_loss))"
  by pat_completeness auto
termination
  by (relation "measure (\<lambda>(env, cfg, n_iters, evaluate, vars). nat (n_iters - fst (snd vars)))")
     (auto dest!: train_iteration_iter)

declare trainIters_loop.simps [simp del]

text \<open>The first \<open>k\<close> passes through the body of the loop, whatever the bound.\<close>

fun run_iterations ::
  "('b, 'eo, 'ef, 'h, 's) env \<Rightarrow> config \<Rightarrow> bool \<Rightarrow> nat \<Rightarrow> train \<times> int \<times> real
     \<Rightarrow> error + train \<times> int \<times> real" where
  "run_iterations env cfg evaluate 0 vars = Inr vars"
| "run_iterations env cfg evaluate (Suc k) vars =
     bind_err (train_iteration env cfg evaluate vars) (run_iterations env cfg evaluate k)"

definition trainIters ::
  "('b, 'eo, 'ef, 'h, 's) env \<Rightarrow> config \<Rightarrow> train \<Rightarrow> int \<Rightarrow> string option \<Rightarrow> bool
     \<Rightarrow> error + train \<times> int \<times> real" where
  "trainIters env cfg self n_iters model_file_path evaluate =
     bind_err (setup_train env cfg self model_file_path)
       (trainIters_loop env cfg n_iters evaluate)"

section \<open>A small training run\<close>

text \<open>
  Concrete collaborators for evaluating the definitions: a model of one parameter per
  group, batches of one example with two target tokens over a vocabulary of two, a
  decoder that always answers with the uniform distribution, gradient clipping that
  changes nothing, and an evaluator that always raises.
\<close>

definition model_of_checkpoint :: "checkpoint \<Rightarrow> model" where
  "model_of_checkpoint state =
     \<lparr>encoder = \<lparr>parameters = encoder_state_dict state, grad = [0]\<rparr>,
      decoder = \<lparr>parameters = decoder_state_dict state, grad = [0]\<rparr>,
      reduce_state = \<lparr>parameters = reduce_state_dict state, grad = [0]\<rparr>\<rparr>"

definition fresh_model :: model where
  "fresh_model =
     \<lparr>encoder = \<lparr>parameters = [1], grad = [0]\<rparr>,
      decoder = \<lparr>parameters = [2], grad = [0]\<rparr>,
      reduce_state = \<lparr>parameters = [3], grad = [0]\<rparr>\<rparr>"

definition small_env :: "(unit, unit, unit, unit, unit) env" where
  "small_env =
     \<lparr>Model = (\<lambda>files model_file_path.
         case model_file_path of
           None \<Rightarrow> Inr fresh_model
         | Some path \<Rightarrow>
             (case files path of
                None \<Rightarrow> Inl FileNotFoundError
              | Some state \<Rightarrow> Inr (model_of_checkpoint state))),
      encoder_fwd = (\<lambda>ps enc_batch enc_lens. ((), (), ())),
      reduce_state_fwd = (\<lambda>ps h. ()),
      decoder_fwd = (\<lambda>ps y_t_1 s eo ef enc_padding_mask c extra_zeros extend_vocab cov di.
         ([[1/2, 1/2]], s, c, [[1]], None, cov)),
      get_input_from_batch = (\<lambda>b. ([[0]], [[1]], [1], None, None, [[0]], None)),
      get_output_from_batch = (\<lambda>b. ([[1, 0]], [[1, 1]], 2, [2], [[0, 1]])),
      backward = (\<lambda>m b. m),
      clip_grad_norm = (\<lambda>g max_norm. (g, 0)),
      optimizer_step = (\<lambda>opt m. (opt, m)),
      next_batch = (\<lambda>k. ()),
      calc_running_avg_loss = (\<lambda>loss running_avg_loss iter. loss),
      time_time = (\<lambda>iter. 1541000000),
      beam_search_decode = (\<lambda>files path. Some EvaluationError)\<rparr>"

definition small_config :: config where
  "small_config =
     \<lparr>is_coverage = False, lr = 15/100, lr_coverage = 15/100, adagrad_init_acc = 1/10,
      max_dec_steps = 100, eps = 1/2, cov_loss_wt = 1, max_grad_norm = 2\<rparr>"

definition small_checkpoint :: checkpoint where
  "small_checkpoint =
     \<lparr>saved_iter = 4999, encoder_state_dict = [4], decoder_state_dict = [5],
      reduce_state_dict = [6],
      optimizer_state_dict = \<lparr>opt_lr = 15/100, accumulator = [7, 8, 9]\<rparr>,
      current_loss = 3\<rparr>"

definition small_train :: train where
  "small_train =
     \<lparr>model = fresh_model,
      optimizer = \<lparr>opt_lr = 15/100, accumulator = [1/10, 1/10, 1/10]\<rparr>,
      self_norm = None, model_dir = ''log/train_1540000000/model'', batcher_pos = 0,
      files = [''ckpt'' \<mapsto> small_checkpoint]\<rparr>"

text \<open>
  The state of that run after it has resumed from the checkpoint \<open>''ckpt''\<close> and after
  its next iterations, and the checkpoint it writes at iteration 5000.
\<close>

definition small_resumed :: train where
  "small_resumed =
     small_train\<lparr>model := model_of_checkpoint small_checkpoint,
                 optimizer := \<lparr>opt_lr = 15/100, accumulator = [7, 8, 9]\<rparr>\<rparr>"

definition small_saved :: checkpoint where
  "small_saved =
     \<lparr>saved_iter = 5000, encoder_state_dict = [4], decoder_state_dict = [5],
      reduce_state_dict = [6],
      optimizer_state_dict = \<lparr>opt_lr = 15/100, accumulator = [7, 8, 9]\<rparr>,
      current_loss = 0\<rparr>"

definition small_after :: "nat \<Rightarrow> train" where
  "small_after k =
     \<lparr>model = model_of_checkpoint small_checkpoint,
      optimizer = \<lparr>opt_lr = 15/100, accumulator = [7, 8, 9]\<rparr>,
      self_norm = Some 0, model_dir = ''log/train_1540000000/model'', batcher_pos = k,
      files = [''ckpt'' \<mapsto> small_checkpoint,
               ''log/train_1540000000/model/model_5000_1541000000'' \<mapsto> small_saved]\<rparr>"

text \<open>
  A batch of two examples with two decode steps; the second example has one target token
  and is padded at position 1. The decoder answers every call with the same output and
  attention distributions and adds the attention to the coverage it is given.
\<close>

definition pair_decoder :: "unit decoder_call" where
  "pair_decoder y_t_1 s c cov di =
     ([[1/2, 1/2], [1/4, 3/4]], s, c, [[1/2, 1/2], [1/4, 3/4]], None,
      map_option (\<lambda>cv. map (\<lambda>(r, a). map (\<lambda>(x, y). x + y) (zip r a))
                          (zip cv [[1/2, 1/2], [1/4, 3/4]])) cov)"

definition pair_dec_batch :: "int list list" where
  "pair_dec_batch = [[1, 0], [1, 1]]"

definition pair_target_batch :: "int list list" where
  "pair_target_batch = [[0, 1], [1, 0]]"

definition pair_padding_mask :: tensor2 where
  "pair_padding_mask = [[1, 1], [1, 0]]"

definition pair_config :: config where
  "pair_config = small_config\<lparr>eps := 1/4\<rparr>"

definition pair_env :: "(unit, unit, unit, unit, unit) env" where
  "pair_env =
     small_env
       \<lparr>decoder_fwd := (\<lambda>ps y_t_1 s eo ef enc_padding_mask c extra_zeros extend_vocab cov di.
          pair_decoder y_t_1 s c cov di),
        get_input_from_batch := (\<lambda>b. ([[0], [0]], [[1], [1]], [1, 1], None, None, [[0], [0]], None)),
        get_output_from_batch :=
          (\<lambda>b. (pair_dec_batch, pair_padding_mask, 2, [2, 1], pair_target_batch))\<rparr>"

text \<open>
  A decoder that answers like \<open>pair_decoder\<close> when it is fed the gold tokens of the
  position and differently on any other input.
\<close>

definition other_decoder :: "unit decoder_call" where
  "other_decoder y_t_1 s c cov di =
     (if y_t_1 = map (\<lambda>row. row ! di) pair_dec_batch then pair_decoder y_t_1 s c cov di
      else ([[1, 0], [1, 0]], s, c, [[1, 0], [1, 0]], None, None))"

section \<open>Properties\<close>

lemma bind_err_Inr_iff:
  "bind_err m f = Inr y \<longleftrightarrow> (\<exists>x. m = Inr x \<and> f x = Inr y)"
  by (cases m) (simp_all add: bind_err_def)

lemma step_coverage_loss_Inr:
  assumes "step_coverage_loss attn_dist coverage = Inr l"
  shows "\<exists>cov. coverage = Some cov \<and> map length attn_dist = map length cov
           \<and> l = map (\<lambda>(x, y). sum_list (map (\<lambda>(a, b). min a b) (zip x y))) (zip attn_dist cov)"
  using assms
  by (auto simp: step_coverage_loss_def elementwise2_def sum_dim1_def bind_err_Inr_iff
           split: option.splits if_splits)

text \<open>
  C9. When every entry of the attention distribution and of the coverage accumulator is
  non-negative, every entry of the coverage loss of the step (the sum over the source
  positions of their element-wise minimum) is non-negative.
\<close>

theorem step_coverage_loss_nonneg:
  assumes "step_coverage_loss attn_dist (Some cov) = Inr l"
    and "\<forall>row \<in> set attn_dist. \<forall>a \<in> set row. 0 \<le> a"
    and "\<forall>row \<in> set cov. \<forall>c \<in> set row. 0 \<le> c"
  shows "\<forall>x \<in> set l. 0 \<le> x"
proof -
  from step_coverage_loss_Inr [OF assms(1)]
  have l: "l = map (\<lambda>(x, y). sum_list (map (\<lambda>(a, b). min a b) (zip x y))) (zip attn_dist cov)"
    by simp
  show ?thesis
  proof
    fix x assume "x \<in> set l"
    then obtain r c where rc: "(r, c) \<in> set (zip attn_dist cov)"
      and x: "x = sum_list (map (\<lambda>(a, b). min a b) (zip r c))"
      unfolding l by auto
    from rc have "r \<in> set attn_dist" "c \<in> set cov"
      by (auto dest: set_zip_leftD set_zip_rightD)
    with assms(2,3) have "\<forall>a \<in> set r. 0 \<le> a" "\<forall>b \<in> set c. 0 \<le> b" by auto
    then have "\<forall>p \<in> set (zip r c). 0 \<le> (case p of (a, b) \<Rightarrow> min a b)"
      by (auto elim!: in_set_zipE)
    then show "0 \<le> x" unfolding x by (intro sum_list_nonneg) auto
  qed
qed

theorem step_coverage_loss_nonneg_witness:
  "step_coverage_loss [[1/2, 1/2], [1/4, 3/4]] (Some [[1, 0], [1/8, 1]]) = Inr [1/2, 7/8]
   \<and> list_all (\<lambda>x. 0 \<le> x) [1/2, 7/8 :: real]"
proof -
  have e: "step_coverage_loss [[1/2, 1/2], [1/4, 3/4]] (Some [[1, 0], [1/8, 1]]) = Inr [1/2, 7/8]"
    by (simp add: step_coverage_loss_def elementwise2_def sum_dim1_def bind_err_def)
  from step_coverage_loss_nonneg [OF e] show ?thesis using e by (simp add: list_all_iff)
qed

subsection \<open>Checkpoints\<close>

lemma str_of_int_5000: "str_of_int 5000 = ''5000''"
  by (simp add: str_of_int_def digits.simps)

lemma str_of_int_clock: "str_of_int 1541000000 = ''1541000000''"
  by (simp add: str_of_int_def digits.simps)

lemma save_model_files:
  "files (fst (save_model env self L N)) (snd (save_model env self L N)) =
     Some \<lparr>saved_iter = N,
           encoder_state_dict = parameters (encoder (model self)),
           decoder_state_dict = parameters (decoder (model self)),
           reduce_state_dict = parameters (reduce_state (model self)),
           optimizer_state_dict = optimizer self,
           current_loss = L\<rparr>"
  by (simp add: save_model_def Let_def torch_save_def)

lemma small_save_model:
  "save_model small_env small_train 3 5000 =
     (small_train\<lparr>files :=
        [''ckpt'' \<mapsto> small_checkpoint,
         ''log/train_1540000000/model/model_5000_1541000000'' \<mapsto>
           \<lparr>saved_iter = 5000, encoder_state_dict = [1], decoder_state_dict = [2],
            reduce_state_dict = [3],
            optimizer_state_dict = \<lparr>opt_lr = 15/100, accumulator = [1/10, 1/10, 1/10]\<rparr>,
            current_loss = 3\<rparr>]\<rparr>,
      ''log/train_1540000000/model/model_5000_1541000000'')"
  by (simp add: save_model_def small_env_def small_train_def fresh_model_def Let_def
        str_of_int_5000 str_of_int_clock path_join_def torch_save_def)

text \<open>
  C6. Checkpoint round trip. After \<open>save_model\<close> with iteration \<open>N\<close> and running loss
  \<open>L\<close>, loading the returned path gives back the record that was saved: the iteration
  \<open>N\<close>, the state dicts of the three parameter groups, the optimizer state and the
  running loss \<open>L\<close>, and nothing else. \<open>setup_train\<close> on that path starts from iteration
  \<open>N\<close> and running loss \<open>L\<close> whenever the model's constructor accepts the file, and
  outside coverage mode its optimizer has the saved state.
\<close>

theorem checkpoint_round_trip:
  assumes "save_model env self L N = (self1, path)"
  shows "torch_load (files self1) path =
           Inr \<lparr>saved_iter = N,
                encoder_state_dict = parameters (encoder (model self)),
                decoder_state_dict = parameters (decoder (model self)),
                reduce_state_dict = parameters (reduce_state (model self)),
                optimizer_state_dict = optimizer self,
                current_loss = L\<rparr>
         \<and> (\<forall>m. Model env (files self1) (Some path) = Inr m \<longrightarrow>
               (\<exists>self2. setup_train env cfg self1 (Some path) = Inr (self2, N, L)
                  \<and> model self2 = m
                  \<and> (\<not> is_coverage cfg \<longrightarrow> optimizer self2 = optimizer self)))"
proof -
  from assms save_model_files [of env self L N]
  have "files self1 path =
     Some \<lparr>saved_iter = N,
           encoder_state_dict = parameters (encoder (model self)),
           decoder_state_dict = parameters (decoder (model self)),
           reduce_state_dict = parameters (reduce_state (model self)),
           optimizer_state_dict = optimizer self,
           current_loss = L\<rparr>"
    by simp
  then show ?thesis
    by (auto simp: torch_load_def setup_train_def bind_err_def Let_def load_state_dict_def)
qed

theorem checkpoint_round_trip_witness:
  "snd (save_model small_env small_train 3 5000)
     = ''log/train_1540000000/model/model_5000_1541000000''
   \<and> torch_load (files (fst (save_model small_env small_train 3 5000)))
         ''log/train_1540000000/model/model_5000_1541000000''
       = Inr \<lparr>saved_iter = 5000, encoder_state_dict = [1], decoder_state_dict = [2],
              reduce_state_dict = [3],
              optimizer_state_dict = \<lparr>opt_lr = 15/100, accumulator = [1/10, 1/10, 1/10]\<rparr>,
              current_loss = 3\<rparr>
   \<and> (\<exists>self2. setup_train small_env small_config (fst (save_model small_env small_train 3 5000))
                  (Some ''log/train_1540000000/model/model_5000_1541000000'')
                = Inr (self2, 5000, 3)
          \<and> optimizer self2 = \<lparr>opt_lr = 15/100, accumulator = [1/10, 1/10, 1/10]\<rparr>)"
proof -
  let ?s = "fst (save_model small_env small_train 3 5000)"
  let ?p = "''log/train_1540000000/model/model_5000_1541000000''"
  have sv: "save_model small_env small_train 3 5000 = (?s, ?p)"
    by (simp add: small_save_model)
  have m: "Model small_env (files ?s) (Some ?p)
             = Inr (model_of_checkpoint
                 \<lparr>saved_iter = 5000, encoder_state_dict = [1], decoder_state_dict = [2],
                  reduce_state_dict = [3],
                  optimizer_state_dict = \<lparr>opt_lr = 15/100, accumulator = [1/10, 1/10, 1/10]\<rparr>,
                  current_loss = 3\<rparr>)"
    by (simp add: small_save_model) (simp add: small_env_def)
  have c: "\<not> is_coverage small_config" by (simp add: small_config_def)
  have P: "parameters (encoder (model small_train)) = [1]"
    "parameters (decoder (model small_train)) = [2]"
    "parameters (reduce_state (model small_train)) = [3]"
    "optimizer small_train = \<lparr>opt_lr = 15/100, accumulator = [1/10, 1/10, 1/10]\<rparr>"
    by (simp_all add: small_train_def fresh_model_def)
  from checkpoint_round_trip [OF sv, of small_config] m c
  have "torch_load (files ?s) ?p =
           Inr \<lparr>saved_iter = 5000,
                encoder_state_dict = parameters (encoder (model small_train)),
                decoder_state_dict = parameters (decoder (model small_train)),
                reduce_state_dict = parameters (reduce_state (model small_train)),
                optimizer_state_dict = optimizer small_train,
                current_loss = 3\<rparr>"
    and "\<exists>self2. setup_train small_env small_config ?s (Some ?p) = Inr (self2, 5000, 3)
            \<and> optimizer self2 = optimizer small_train"
    by blast+
  moreover have "snd (save_model small_env small_train 3 5000) = ?p"
    by (simp add: small_save_model)
  ultimately show ?thesis
    unfolding P by blast
qed

subsection \<open>The optimizer after \<open>setup_train\<close>\<close>

lemma small_setup_resume:
  "setup_train small_env small_config small_train (Some ''ckpt'') =
     Inr (small_train\<lparr>model := model_of_checkpoint small_checkpoint,
                       optimizer := \<lparr>opt_lr = 15/100, accumulator = [7, 8, 9]\<rparr>\<rparr>, 4999, 3)"
  by (simp add: setup_train_def small_env_def small_train_def small_config_def bind_err_def
        torch_load_def Let_def load_state_dict_def small_checkpoint_def)

text \<open>
  C4, as the code has it. When \<open>setup_train\<close> returns, its optimizer holds the state
  persisted in the checkpoint exactly when a checkpoint path was given and coverage mode
  is off. In every other case (a fresh run, or a run resumed in coverage mode) it holds
  the state its constructor built, with every accumulator at the configured initial
  constant.
\<close>

theorem setup_train_optimizer:
  assumes "setup_train env cfg self model_file_path = Inr (self', start_iter, start_loss)"
  shows "(model_file_path \<noteq> None \<and> \<not> is_coverage cfg \<longrightarrow>
            (\<exists>path state. model_file_path = Some path \<and> files self path = Some state
               \<and> optimizer self' = optimizer_state_dict state))
       \<and> (model_file_path = None \<or> is_coverage cfg \<longrightarrow>
            optimizer self' =
              AdagradCustom
                (parameters (encoder (model self')) @ parameters (decoder (model self'))
                   @ parameters (reduce_state (model self')))
                (if is_coverage cfg then lr_coverage cfg else lr cfg) (adagrad_init_acc cfg)
            \<and> list_all (\<lambda>a. a = adagrad_init_acc cfg) (accumulator (optimizer self')))"
proof -
  from assms obtain m where m: "Model env (files self) model_file_path = Inr m"
    by (auto simp: setup_train_def bind_err_Inr_iff)
  let ?opt = "AdagradCustom
                (parameters (encoder m) @ parameters (decoder m) @ parameters (reduce_state m))
                (if is_coverage cfg then lr_coverage cfg else lr cfg) (adagrad_init_acc cfg)"
  have acc: "list_all (\<lambda>a. a = adagrad_init_acc cfg) (accumulator ?opt)"
    by (auto simp: AdagradCustom_def list_all_iff)
  show ?thesis
  proof (cases model_file_path)
    case None
    with assms m have "self' = self\<lparr>model := m, optimizer := ?opt\<rparr>"
      by (simp add: setup_train_def bind_err_def Let_def)
    with None acc show ?thesis by simp
  next
    case (Some path)
    with assms m obtain state where st: "files self path = Some state"
      by (auto simp: setup_train_def bind_err_def Let_def torch_load_def split: option.splits)
    show ?thesis
    proof (cases "is_coverage cfg")
      case True
      with assms m Some st have "self' = self\<lparr>model := m, optimizer := ?opt\<rparr>"
        by (simp add: setup_train_def bind_err_def Let_def torch_load_def)
      with Some True acc show ?thesis by simp
    next
      case False
      with assms m Some st
      have "self' = self\<lparr>model := m, optimizer := optimizer_state_dict state\<rparr>"
        by (simp add: setup_train_def bind_err_def Let_def torch_load_def load_state_dict_def)
      with Some False st show ?thesis by simp
    qed
  qed
qed

theorem setup_train_optimizer_witness:
  "setup_train small_env small_config small_train (Some ''ckpt'') =
     Inr (small_train\<lparr>model := model_of_checkpoint small_checkpoint,
                       optimizer := \<lparr>opt_lr = 15/100, accumulator = [7, 8, 9]\<rparr>\<rparr>, 4999, 3)
   \<and> \<not> is_coverage small_config
   \<and> files small_train ''ckpt'' = Some small_checkpoint
   \<and> optimizer (small_train\<lparr>model := model_of_checkpoint small_checkpoint,
                   optimizer := \<lparr>opt_lr = 15/100, accumulator = [7, 8, 9]\<rparr>\<rparr>)
       = optimizer_state_dict small_checkpoint"
proof -
  have c: "\<not> is_coverage small_config" by (simp add: small_config_def)
  have f: "files small_train ''ckpt'' = Some small_checkpoint" by (simp add: small_train_def)
  from setup_train_optimizer [OF small_setup_resume] c f
  have "optimizer (small_train\<lparr>model := model_of_checkpoint small_checkpoint,
                   optimizer := \<lparr>opt_lr = 15/100, accumulator = [7, 8, 9]\<rparr>\<rparr>)
       = optimizer_state_dict small_checkpoint"
    by auto
  with small_setup_resume c f show ?thesis by blast
qed

text \<open>
  A run resumed from a checkpoint in coverage mode: the checkpoint holds the accumulators
  7, 8 and 9, and the optimizer after \<open>setup_train\<close> has every accumulator at the initial
  constant 1/10.
\<close>

theorem setup_train_resume_coverage_counterexample:
  "setup_train small_env (small_config\<lparr>is_coverage := True\<rparr>) small_train (Some ''ckpt'') =
     Inr (small_train\<lparr>model := model_of_checkpoint small_checkpoint,
                       optimizer := \<lparr>opt_lr = 15/100, accumulator = [1/10, 1/10, 1/10]\<rparr>\<rparr>,
          4999, 3)
   \<and> accumulator (optimizer_state_dict small_checkpoint) = [7, 8, 9]
   \<and> adagrad_init_acc (small_config\<lparr>is_coverage := True\<rparr>) = 1/10"
  by (simp add: setup_train_def small_env_def small_train_def small_config_def bind_err_def
        torch_load_def Let_def small_checkpoint_def AdagradCustom_def model_of_checkpoint_def)

subsection \<open>The training loop\<close>

lemma train_one_batch_frame:
  assumes "train_one_batch env cfg self b = Inr (self', loss)"
  shows "batcher_pos self' = batcher_pos self \<and> files self' = files self
         \<and> model_dir self' = model_dir self"
  using assms unfolding train_one_batch_def Let_def bind_err_def
  by (auto split: prod.split_asm sum.split_asm)

lemma save_model_frame:
  "batcher_pos (fst (save_model env self l i)) = batcher_pos self"
  by (simp add: save_model_def Let_def)

lemma train_iteration_Inr:
  assumes "train_iteration env cfg evaluate (self, iter, l) = Inr (self', iter', l')"
  shows "iter' = iter + 1 \<and> batcher_pos self' = batcher_pos self + 1
       \<and> (if (iter + 1) mod 5000 = 0
          then \<exists>path state. files self' = (files self)(path \<mapsto> state) \<and> saved_iter state = iter + 1
          else files self' = files self)"
proof -
  let ?self1 = "self\<lparr>batcher_pos := batcher_pos self + 1\<rparr>"
  from assms obtain self2 loss where
    tob: "train_one_batch env cfg ?self1 (next_batch env (batcher_pos self)) = Inr (self2, loss)"
    by (auto simp: train_iteration_def bind_err_Inr_iff Let_def)
  from train_one_batch_frame [OF tob]
  have fr: "batcher_pos self2 = batcher_pos self + 1" "files self2 = files self" by simp_all
  let ?l = "calc_running_avg_loss env loss l iter"
  show ?thesis
  proof (cases "(iter + 1) mod 5000 = 0")
    case False
    with assms tob have "self' = self2" "iter' = iter + 1"
      by (auto simp: train_iteration_def bind_err_def Let_def)
    with fr False show ?thesis by simp
  next
    case True
    with assms tob have s: "self' = fst (save_model env self2 ?l (iter + 1))" and i: "iter' = iter + 1"
      by (auto simp: train_iteration_def bind_err_def Let_def split: prod.splits if_splits option.splits)
    let ?c = "\<lparr>saved_iter = iter + 1,
               encoder_state_dict = parameters (encoder (model self2)),
               decoder_state_dict = parameters (decoder (model self2)),
               reduce_state_dict = parameters (reduce_state (model self2)),
               optimizer_state_dict = optimizer self2,
               current_loss = ?l\<rparr>"
    from s fr
    have "files self' = (files self)(snd (save_model env self2 ?l (iter + 1)) \<mapsto> ?c)"
      by (simp add: save_model_def Let_def torch_save_def)
    moreover have "saved_iter ?c = iter + 1" by simp
    ultimately
    have "\<exists>path state. files self' = (files self)(path \<mapsto> state) \<and> saved_iter state = iter + 1"
      by blast
    with True i s fr show ?thesis by (simp add: save_model_frame)
  qed
qed

lemma trainIters_loop_run:
  "trainIters_loop env cfg n_iters evaluate vars =
     run_iterations env cfg evaluate (nat (n_iters - fst (snd vars))) vars"
proof (induction env cfg n_iters evaluate vars rule: trainIters_loop.induct)
  case (1 env cfg n_iters evaluate self iter l)
  show ?case
  proof (cases "iter < n_iters")
    case False
    then show ?thesis by (simp add: trainIters_loop.simps)
  next
    case True
    then obtain k where k: "nat (n_iters - iter) = Suc k" by (cases "nat (n_iters - iter)") auto
    show ?thesis
    proof (cases "train_iteration env cfg evaluate (self, iter, l)")
      case (Inl e)
      with True k show ?thesis by (simp add: trainIters_loop.simps bind_err_def)
    next
      case (Inr vars)
      from train_iteration_iter [OF Inr] have "fst (snd vars) = iter + 1" .
      with k have "nat (n_iters - fst (snd vars)) = k" by simp
      with "1.IH" [OF True Inr] True Inr k show ?thesis 
        by (simp add: trainIters_loop.simps bind_err_def)
    qed
  qed
qed

lemma run_iterations_add:
  "run_iterations env cfg evaluate (j + k) vars =
     bind_err (run_iterations env cfg evaluate j vars) (run_iterations env cfg evaluate k)"
  by (induction j arbitrary: vars) (auto simp: bind_err_def split: sum.splits)

lemma run_iterations_Inr:
  "run_iterations env cfg evaluate k (self, iter, l) = Inr (self', iter', l') \<Longrightarrow>
     iter' = iter + int k \<and> batcher_pos self' = batcher_pos self + k"
proof (induction k arbitrary: self iter l)
  case 0
  then show ?case by simp
next
  case (Suc k)
  from Suc.prems obtain s i m where
    st: "train_iteration env cfg evaluate (self, iter, l) = Inr (s, i, m)"
    and rest: "run_iterations env cfg evaluate k (s, i, m) = Inr (self', iter', l')"
    by (auto simp: bind_err_Inr_iff)
  from train_iteration_Inr [OF st] Suc.IH [OF rest] show ?case by simp
qed


lemma setup_train_frame:
  assumes "setup_train env cfg self model_file_path = Inr (s0, N, L0)"
  shows "batcher_pos s0 = batcher_pos self \<and> files s0 = files self
       \<and> (case model_file_path of
            None \<Rightarrow> N = 0
          | Some path \<Rightarrow> \<exists>state. files self path = Some state \<and> N = saved_iter state)"
  using assms unfolding setup_train_def Let_def bind_err_def torch_load_def
  by (auto split: sum.split_asm option.split_asm if_split_asm)

lemma run_iterations_prefix:
  assumes "run_iterations env cfg evaluate n vars = Inr vars'" and "k < n"
  shows "\<exists>vk vk1. run_iterations env cfg evaluate k vars = Inr vk
           \<and> train_iteration env cfg evaluate vk = Inr vk1"
proof -
  define j where "j = n - Suc k"
  with \<open>k < n\<close> have n: "n = k + Suc j" by simp
  from assms(1)
  have "bind_err (run_iterations env cfg evaluate k vars)
          (run_iterations env cfg evaluate (Suc j)) = Inr vars'"
    by (simp only: n run_iterations_add)
  then obtain vk where a: "run_iterations env cfg evaluate k vars = Inr vk"
    and b: "run_iterations env cfg evaluate (Suc j) vk = Inr vars'"
    unfolding bind_err_Inr_iff by blast
  from b obtain vk1 where "train_iteration env cfg evaluate vk = Inr vk1"
    unfolding run_iterations.simps bind_err_Inr_iff by blast
  with a show ?thesis by blast
qed

text \<open>
  C10. The iteration counter is incremented before the check for the checkpoint. A run
  starts counting at \<open>N\<close>: zero for a fresh run, the iteration stored in the checkpoint
  for a resumed one. When \<open>trainIters\<close> returns, it has executed \<open>n_iters - N\<close> iterations
  (none when \<open>N\<close> is already beyond \<open>n_iters\<close>), one batch each, numbered \<open>N\<close>,
  \<open>N + 1\<close>, ... without repetition; and an iteration that writes a checkpoint writes
  one file, which stores the number of iterations completed so far, \<open>N + k + 1\<close> after
  \<open>k + 1\<close> iterations of this run.
\<close>

theorem trainIters_iteration_count:
  assumes su: "setup_train env cfg self model_file_path = Inr (s0, N, L0)"
    and run: "trainIters env cfg self n_iters model_file_path evaluate = Inr (self', iter', l')"
  shows "(case model_file_path of
            None \<Rightarrow> N = 0
          | Some path \<Rightarrow> \<exists>state. files self path = Some state \<and> N = saved_iter state)
       \<and> iter' = max N n_iters
       \<and> batcher_pos self' = batcher_pos self + nat (n_iters - N)
       \<and> (N \<le> n_iters \<longrightarrow> int (batcher_pos self') - int (batcher_pos self) = n_iters - N)
       \<and> (\<forall>k < nat (n_iters - N). \<exists>sk lk s l.
             run_iterations env cfg evaluate k (s0, N, L0) = Inr (sk, N + int k, lk)
           \<and> batcher_pos sk = batcher_pos self + k
           \<and> train_iteration env cfg evaluate (sk, N + int k, lk) = Inr (s, N + int k + 1, l)
           \<and> (if (N + int k + 1) mod 5000 = 0
              then \<exists>path state. files s = (files sk)(path \<mapsto> state)
                     \<and> saved_iter state = N + int k + 1
              else files s = files sk))"
proof -
  note fr = setup_train_frame [OF su]
  from run su have loop: "trainIters_loop env cfg n_iters evaluate (s0, N, L0) = Inr (self', iter', l')"
    by (simp add: trainIters_def bind_err_def)
  then have ri: "run_iterations env cfg evaluate (nat (n_iters - N)) (s0, N, L0) = Inr (self', iter', l')"
    by (simp add: trainIters_loop_run)
  from run_iterations_Inr [OF ri] fr
  have fin: "iter' = max N n_iters" "batcher_pos self' = batcher_pos self + nat (n_iters - N)"
    by auto
  have steps: "\<exists>sk lk s l.
             run_iterations env cfg evaluate k (s0, N, L0) = Inr (sk, N + int k, lk)
           \<and> batcher_pos sk = batcher_pos self + k
           \<and> train_iteration env cfg evaluate (sk, N + int k, lk) = Inr (s, N + int k + 1, l)
           \<and> (if (N + int k + 1) mod 5000 = 0
              then \<exists>path state. files s = (files sk)(path \<mapsto> state)
                     \<and> saved_iter state = N + int k + 1
              else files s = files sk)" if k: "k < nat (n_iters - N)" for k
  proof -
    from run_iterations_prefix [OF ri k] obtain sk ik lk s i l where
      a: "run_iterations env cfg evaluate k (s0, N, L0) = Inr (sk, ik, lk)"
      and b: "train_iteration env cfg evaluate (sk, ik, lk) = Inr (s, i, l)"
      by (metis prod_cases3)
    from run_iterations_Inr [OF a] fr have ik: "ik = N + int k" "batcher_pos sk = batcher_pos self + k"
      by auto
    from train_iteration_Inr [OF b] ik a b show ?thesis by auto
  qed
  from fr fin steps show ?thesis by auto
qed

text \<open>
  C7, as the code has it. At an iteration that triggers evaluation (the incremented
  counter is a multiple of 5000 and \<open>evaluate\<close> is set), an exception raised by the
  beam-search evaluator is not caught: it leaves the loop, and \<open>trainIters\<close> ends with
  it after the checkpoint has been written. When the evaluator returns normally, the
  loop goes on with the loop variables as they were after the checkpoint was saved.
\<close>

theorem evaluation_failure_aborts:
  assumes "iter < n_iters"
    and "train_one_batch env cfg (self\<lparr>batcher_pos := batcher_pos self + 1\<rparr>)
           (next_batch env (batcher_pos self)) = Inr (self2, loss)"
    and "(iter + 1) mod 5000 = 0"
    and "save_model env self2 (calc_running_avg_loss env loss l iter) (iter + 1)
           = (self3, model_path)"
  shows "(\<forall>e. beam_search_decode env (files self3) model_path = Some e \<longrightarrow>
            trainIters_loop env cfg n_iters True (self, iter, l) = Inl e)
       \<and> (beam_search_decode env (files self3) model_path = None \<longrightarrow>
            trainIters_loop env cfg n_iters True (self, iter, l)
              = trainIters_loop env cfg n_iters True
                  (self3, iter + 1, calc_running_avg_loss env loss l iter))"
  using assms
  by (simp add: trainIters_loop.simps [of _ _ _ _ self iter l] train_iteration_def bind_err_def
        Let_def)

lemma small_train_one_batch:
  "train_one_batch small_env small_config self () =
     Inr (self\<lparr>model := zero_grad (model self), self_norm := Some 0\<rparr>, 0)"
  by (simp add: train_one_batch_def small_env_def small_config_def forward_loss_def
     decode_range_def decode_loop_def decode_step_def bind_err_def select_col_def gather_def
     elementwise_def batch_loss_def stack_dim1_def sum_dim1_def mean_def clip_gradients_def
     upt_rec Let_def)

subsection \<open>The small run, evaluated\<close>

lemma small_setup_resumed:
  "setup_train small_env small_config small_train (Some ''ckpt'') = Inr (small_resumed, 4999, 3)"
  by (simp add: small_setup_resume small_resumed_def)

lemma small_iteration_4999_eval:
  "train_iteration small_env small_config True (small_resumed, 4999, 3) = Inl EvaluationError"
  apply (simp add: train_iteration_def small_train_one_batch bind_err_def Let_def)
  apply (simp add: save_model_def small_env_def Let_def)
  done

lemma small_iteration_4999:
  "train_iteration small_env small_config False (small_resumed, 4999, 3)
     = Inr (small_after 1, 5000, 0)"
  apply (simp add: train_iteration_def small_train_one_batch bind_err_def Let_def)
  apply (simp add: save_model_def small_env_def Let_def str_of_int_5000 str_of_int_clock
      path_join_def torch_save_def small_train_def zero_grad_def zero_group_def
      model_of_checkpoint_def small_checkpoint_def small_resumed_def small_after_def
      small_saved_def)
  done

lemma small_iteration_5000:
  "train_iteration small_env small_config False (small_after 1, 5000, 0)
     = Inr (small_after 2, 5001, 0)"
  apply (simp add: train_iteration_def small_train_one_batch bind_err_def Let_def)
  apply (simp add: small_env_def small_after_def zero_grad_def zero_group_def
      model_of_checkpoint_def)
  done

text \<open>
  A run resumed at iteration 4999 with evaluation enabled: the evaluator raises at
  iteration 5000, and \<open>trainIters\<close>, asked for 5001 iterations, ends with that exception.
\<close>

theorem evaluation_failure_counterexample:
  "trainIters small_env small_config small_train 5001 (Some ''ckpt'') True
     = Inl EvaluationError"
  by (simp add: trainIters_def small_setup_resumed bind_err_def
        trainIters_loop.simps [of _ _ _ _ small_resumed 4999 3] small_iteration_4999_eval)

lemma small_run:
  "trainIters small_env small_config small_train 5001 (Some ''ckpt'') False
     = Inr (small_after 2, 5001, 0)"
proof -
  have l2: "trainIters_loop small_env small_config 5001 False (small_after 2, 5001, 0)
              = Inr (small_after 2, 5001, 0)"
    by (subst trainIters_loop.simps) simp
  have l1: "trainIters_loop small_env small_config 5001 False (small_after 1, 5000, 0)
              = Inr (small_after 2, 5001, 0)"
    by (subst trainIters_loop.simps) (simp only: small_iteration_5000 sum.case l2, simp)
  have l0: "trainIters_loop small_env small_config 5001 False (small_resumed, 4999, 3)
              = Inr (small_after 2, 5001, 0)"
    by (subst trainIters_loop.simps) (simp only: small_iteration_4999 sum.case l1, simp)
  show ?thesis
    by (simp add: trainIters_def small_setup_resumed bind_err_def l0)
qed

theorem trainIters_iteration_count_witness:
  "setup_train small_env small_config small_train (Some ''ckpt'') = Inr (small_resumed, 4999, 3)
   \<and> trainIters small_env small_config small_train 5001 (Some ''ckpt'') False
       = Inr (small_after 2, 5001, 0)
   \<and> files small_train ''ckpt'' = Some small_checkpoint
   \<and> saved_iter small_checkpoint = 4999
   \<and> (5001 :: int) = max 4999 5001
   \<and> batcher_pos (small_after 2) = batcher_pos small_train + nat (5001 - 4999)
   \<and> train_iteration small_env small_config False (small_resumed, 4999, 3)
       = Inr (small_after 1, 5000, 0)
   \<and> files (small_after 1)
       = (files small_resumed)
           (''log/train_1540000000/model/model_5000_1541000000'' \<mapsto> small_saved)
   \<and> saved_iter small_saved = 4999 + 1"
proof -
  from trainIters_iteration_count [OF small_setup_resumed small_run]
  have "batcher_pos (small_after 2) = batcher_pos small_train + nat (5001 - 4999)"
    by blast
  moreover have "files (small_after 1)
       = (files small_resumed)
           (''log/train_1540000000/model/model_5000_1541000000'' \<mapsto> small_saved)"
    by (simp add: small_after_def small_resumed_def small_train_def)
  moreover have "files small_train ''ckpt'' = Some small_checkpoint"
    by (simp add: small_train_def)
  moreover have "saved_iter small_checkpoint = 4999" "saved_iter small_saved = 4999 + 1"
    by (simp_all add: small_checkpoint_def small_saved_def)
  ultimately show ?thesis
    using small_setup_resumed small_run small_iteration_4999 by simp
qed

lemma small_save_5000:
  "save_model small_env (small_resumed\<lparr>batcher_pos := 1, model := zero_grad (model small_resumed), self_norm := Some 0\<rparr>) 0 5000
     = (small_after 1, ''log/train_1540000000/model/model_5000_1541000000'')"
  by (simp add: save_model_def small_env_def Let_def str_of_int_5000 str_of_int_clock
      path_join_def torch_save_def small_train_def zero_grad_def zero_group_def
      model_of_checkpoint_def small_checkpoint_def small_resumed_def small_after_def
      small_saved_def)

theorem evaluation_failure_aborts_witness:
  "(4999 :: int) < 5001
   \<and> train_one_batch small_env small_config
         (small_resumed\<lparr>batcher_pos := batcher_pos small_resumed + 1\<rparr>)
         (next_batch small_env (batcher_pos small_resumed))
       = Inr (small_resumed\<lparr>batcher_pos := batcher_pos small_resumed + 1,
                model := zero_grad (model small_resumed), self_norm := Some 0\<rparr>, 0)
   \<and> (4999 + 1 :: int) mod 5000 = 0
   \<and> beam_search_decode small_env (files (small_after 1))
         ''log/train_1540000000/model/model_5000_1541000000'' = Some EvaluationError
   \<and> trainIters_loop small_env small_config 5001 True (small_resumed, 4999, 3)
       = Inl EvaluationError"
proof -
  let ?s2 = "small_resumed\<lparr>batcher_pos := batcher_pos small_resumed + 1,
                model := zero_grad (model small_resumed), self_norm := Some 0\<rparr>"
  have a: "(4999 :: int) < 5001" by simp
  have b: "train_one_batch small_env small_config
         (small_resumed\<lparr>batcher_pos := batcher_pos small_resumed + 1\<rparr>)
         (next_batch small_env (batcher_pos small_resumed)) = Inr (?s2, 0)"
    by (simp add: small_train_one_batch)
  have c: "(4999 + 1 :: int) mod 5000 = 0" by simp
  have d: "save_model small_env ?s2 (calc_running_avg_loss small_env 0 3 4999) (4999 + 1)
            = (small_after 1, ''log/train_1540000000/model/model_5000_1541000000'')"
    using small_save_5000
    by (simp add: small_env_def small_resumed_def small_train_def)
  have e: "beam_search_decode small_env (files (small_after 1))
         ''log/train_1540000000/model/model_5000_1541000000'' = Some EvaluationError"
    by (simp add: small_env_def)
  from evaluation_failure_aborts [OF a b c d] e
  have "trainIters_loop small_env small_config 5001 True (small_resumed, 4999, 3)
       = Inl EvaluationError"
    by blast
  with a b c e show ?thesis by blast
qed

subsection \<open>The decoding loop and the loss\<close>

lemma for_loop_append:
  "for_loop body (xs @ ys) vars = bind_err (for_loop body xs vars) (for_loop body ys)"
  by (induction xs arbitrary: vars) (auto simp: bind_err_def split: sum.splits)

lemma select_col_Inr:
  "select_col t di = Inr col \<Longrightarrow>
     col = map (\<lambda>row. row ! di) t \<and> (\<forall>row \<in> set t. di < length row)"
  by (auto simp: select_col_def list_all_iff split: if_splits)

lemma gather_Inr:
  assumes "gather input index = Inr g"
  shows "length g = length index \<and> length index \<le> length input
       \<and> (\<forall>b < length index. g ! b = input ! b ! nat (index ! b)
             \<and> 0 \<le> index ! b \<and> index ! b < int (length (input ! b)))"
proof -
  from assms have le: "length index \<le> length input"
    and ok: "list_all (\<lambda>(row, i). 0 \<le> i \<and> i < int (length row)) (zip input index)"
    and g: "g = map (\<lambda>(row, i). row ! nat i) (zip input index)"
    by (auto simp: gather_def split: if_splits)
  from le g have len: "length g = length index" by simp
  moreover have "g ! b = input ! b ! nat (index ! b)
             \<and> 0 \<le> index ! b \<and> index ! b < int (length (input ! b))" if "b < length index" for b
  proof -
    from that le have "(input ! b, index ! b) \<in> set (zip input index)"
      by (auto simp: set_zip)
    with ok have "0 \<le> index ! b \<and> index ! b < int (length (input ! b))"
      by (auto simp: list_all_iff)
    moreover from that le g have "g ! b = input ! b ! nat (index ! b)" by simp
    ultimately show ?thesis by simp
  qed
  ultimately show ?thesis using le by blast
qed

lemma elementwise_Inr:
  "elementwise f xs ys = Inr zs \<Longrightarrow>
     length xs = length ys \<and> length zs = length xs \<and> (\<forall>b < length xs. zs ! b = f (xs ! b) (ys ! b))"
  by (auto simp: elementwise_def split: if_splits)

lemma step_coverage_loss_nth:
  assumes "step_coverage_loss attn_dist coverage = Inr l"
  shows "\<exists>cov. coverage = Some cov \<and> length l = length attn_dist \<and> length cov = length attn_dist
           \<and> (\<forall>b < length attn_dist.
                 l ! b = sum_list (map (\<lambda>(a, c). min a c) (zip (attn_dist ! b) (cov ! b))))"
proof -
  from step_coverage_loss_Inr [OF assms] obtain cov where c: "coverage = Some cov"
    and sh: "map length attn_dist = map length cov"
    and l: "l = map (\<lambda>(x, y). sum_list (map (\<lambda>(a, b). min a b) (zip x y))) (zip attn_dist cov)"
    by blast
  from sh have len: "length cov = length attn_dist" by (metis length_map)
  with l have "length l = length attn_dist" by simp
  moreover from l len have "\<forall>b < length attn_dist.
       l ! b = sum_list (map (\<lambda>(a, c). min a c) (zip (attn_dist ! b) (cov ! b)))"
    by simp
  ultimately show ?thesis using c len by blast
qed


lemma decode_step_parts:
  assumes st: "decode_step cfg dec dec_batch target_batch dec_padding_mask di (s, c, cov, ls)
             = Inr (s', c', cov', ls')"
    and d: "dec (map (\<lambda>row. row ! di) dec_batch) s c cov di
             = (final_dist, s1, c1, attn_dist, p_gen, next_coverage)"
  shows "\<exists>gold step_loss masked.
           select_col dec_batch di = Inr (map (\<lambda>row. row ! di) dec_batch)
         \<and> gather final_dist (map (\<lambda>row. row ! di) target_batch) = Inr gold
         \<and> (\<forall>row \<in> set target_batch. di < length row)
         \<and> (\<forall>row \<in> set dec_padding_mask. di < length row)
         \<and> (if is_coverage cfg
            then \<exists>cl. step_coverage_loss attn_dist cov = Inr cl
                   \<and> elementwise (+) (map (\<lambda>p. - ln (p + eps cfg)) gold)
                        (map (\<lambda>x. cov_loss_wt cfg * x) cl) = Inr step_loss
                   \<and> cov' = next_coverage
            else step_loss = map (\<lambda>p. - ln (p + eps cfg)) gold \<and> cov' = cov)
         \<and> elementwise (*) step_loss (map (\<lambda>row. row ! di) dec_padding_mask) = Inr masked
         \<and> s' = s1 \<and> c' = c1 \<and> ls' = ls @ [masked]"
proof -
  from st obtain y where y: "select_col dec_batch di = Inr y"
    by (auto simp: decode_step_def bind_err_Inr_iff)
  from select_col_Inr [OF y] have yv: "y = map (\<lambda>row. row ! di) dec_batch" by simp
  from st y yv d obtain target where t: "select_col target_batch di = Inr target"
    by (auto simp: decode_step_def bind_err_Inr_iff)
  from select_col_Inr [OF t] have tv: "target = map (\<lambda>row. row ! di) target_batch"
    and tr: "\<forall>row \<in> set target_batch. di < length row" by simp_all
  from st y yv d t obtain gold where g: "gather final_dist target = Inr gold"
    by (auto simp: decode_step_def bind_err_Inr_iff)
  let ?sl = "map (\<lambda>p. - ln (p + eps cfg)) gold"
  let ?cv = "if is_coverage cfg then
           bind_err (step_coverage_loss attn_dist cov) (\<lambda>cov_loss.
           bind_err (elementwise (+) ?sl (map (\<lambda>x. cov_loss_wt cfg * x) cov_loss))
             (\<lambda>step_loss'. Inr (step_loss', next_coverage)))
         else Inr (?sl, cov)"
  from st y yv d t g obtain step_loss cov1 where cv: "?cv = Inr (step_loss, cov1)"
    by (auto simp: decode_step_def bind_err_Inr_iff Let_def)
  from st y yv d t g cv obtain mask where m: "select_col dec_padding_mask di = Inr mask"
    by (auto simp: decode_step_def bind_err_Inr_iff Let_def)
  from select_col_Inr [OF m] have mv: "mask = map (\<lambda>row. row ! di) dec_padding_mask"
    and mr: "\<forall>row \<in> set dec_padding_mask. di < length row" by simp_all
  from st y yv d t g cv m obtain masked where
    e: "elementwise (*) step_loss mask = Inr masked"
    and r: "s' = s1" "c' = c1" "cov' = cov1" "ls' = ls @ [masked]"
    by (auto simp: decode_step_def bind_err_Inr_iff Let_def)
  have "if is_coverage cfg
            then \<exists>cl. step_coverage_loss attn_dist cov = Inr cl
                   \<and> elementwise (+) ?sl (map (\<lambda>x. cov_loss_wt cfg * x) cl) = Inr step_loss
                   \<and> cov' = next_coverage
            else step_loss = ?sl \<and> cov' = cov"
    using cv r(3) by (auto simp: bind_err_Inr_iff split: if_splits)
  with y yv g tv tr mr e mv r show ?thesis by blast
qed


lemma decode_loop_append:
  "decode_loop cfg dec dec_batch target_batch dec_padding_mask (xs @ ys) vars =
     bind_err (decode_loop cfg dec dec_batch target_batch dec_padding_mask xs vars)
       (decode_loop cfg dec dec_batch target_batch dec_padding_mask ys)"
  by (simp add: decode_loop_def [abs_def] for_loop_append)

lemma decode_loop_Cons:
  "decode_loop cfg dec dec_batch target_batch dec_padding_mask (di # dis) vars =
     bind_err (decode_step cfg dec dec_batch target_batch dec_padding_mask di vars)
       (decode_loop cfg dec dec_batch target_batch dec_padding_mask dis)"
  by (simp add: decode_loop_def [abs_def])

lemma decode_loop_Nil:
  "decode_loop cfg dec dec_batch target_batch dec_padding_mask [] vars = Inr vars"
  by (simp add: decode_loop_def)

lemma decode_loop_single:
  "decode_loop cfg dec dec_batch target_batch dec_padding_mask [di] vars =
     decode_step cfg dec dec_batch target_batch dec_padding_mask di vars"
  by (simp add: decode_loop_def bind_err_def split: sum.splits)

lemma decode_step_losses:
  assumes "decode_step cfg dec dec_batch target_batch dec_padding_mask di (s, c, cov, ls)
             = Inr (s', c', cov', ls')"
  shows "\<exists>l. ls' = ls @ [l]"
proof -
  obtain final_dist s1 c1 attn_dist p_gen next_coverage where
    "dec (map (\<lambda>row. row ! di) dec_batch) s c cov di
       = (final_dist, s1, c1, attn_dist, p_gen, next_coverage)"
    by (rule prod_cases6)
  from decode_step_parts [OF assms this] show ?thesis by blast
qed

lemma decode_loop_losses:
  "decode_loop cfg dec dec_batch target_batch dec_padding_mask dis (s, c, cov, ls)
     = Inr (s', c', cov', ls') \<Longrightarrow> \<exists>new. ls' = ls @ new \<and> length new = length dis"
proof (induction dis arbitrary: s c cov ls)
  case Nil
  then show ?case by (simp add: decode_loop_Nil)
next
  case (Cons di dis)
  from Cons.prems obtain s1 c1 cov1 ls1 where
    st: "decode_step cfg dec dec_batch target_batch dec_padding_mask di (s, c, cov, ls)
           = Inr (s1, c1, cov1, ls1)"
    and rest: "decode_loop cfg dec dec_batch target_batch dec_padding_mask dis (s1, c1, cov1, ls1)
           = Inr (s', c', cov', ls')"
    unfolding decode_loop_Cons bind_err_Inr_iff by (metis prod_cases4)
  from decode_step_losses [OF st] obtain l where l: "ls1 = ls @ [l]" by blast
  from Cons.IH [OF rest] obtain new where "ls' = ls1 @ new" "length new = length dis" by blast
  with l have "ls' = ls @ (l # new) \<and> length (l # new) = length (di # dis)" by simp
  then show ?case by blast
qed

lemma decode_loop_at:
  assumes run: "decode_loop cfg dec dec_batch target_batch dec_padding_mask [0..<n]
                 (s0, c0, cov0, ls0) = Inr (sN, cN, covN, step_losses)"
    and di: "di < n"
  shows "\<exists>s c cov ls s' c' cov' masked.
           decode_loop cfg dec dec_batch target_batch dec_padding_mask [0..<di] (s0, c0, cov0, ls0)
             = Inr (s, c, cov, ls)
         \<and> length ls = length ls0 + di
         \<and> decode_step cfg dec dec_batch target_batch dec_padding_mask di (s, c, cov, ls)
             = Inr (s', c', cov', ls @ [masked])
         \<and> decode_loop cfg dec dec_batch target_batch dec_padding_mask [0..<Suc di]
               (s0, c0, cov0, ls0) = Inr (s', c', cov', ls @ [masked])
         \<and> step_losses ! (length ls0 + di) = masked
         \<and> length step_losses = length ls0 + n"
proof -
  from di have split: "[0..<n] = [0..<di] @ di # [Suc di..<n]"
    by (metis upt_conv_Cons upt_add_eq_append less_imp_le_nat le_add_diff_inverse zero_le)
  from run obtain s c cov ls where
    pre: "decode_loop cfg dec dec_batch target_batch dec_padding_mask [0..<di] (s0, c0, cov0, ls0)
            = Inr (s, c, cov, ls)"
    and post: "decode_loop cfg dec dec_batch target_batch dec_padding_mask (di # [Suc di..<n])
            (s, c, cov, ls) = Inr (sN, cN, covN, step_losses)"
    unfolding split decode_loop_append bind_err_Inr_iff by (metis prod_cases4)
  from post obtain s' c' cov' ls1 where
    st: "decode_step cfg dec dec_batch target_batch dec_padding_mask di (s, c, cov, ls)
           = Inr (s', c', cov', ls1)"
    and rest: "decode_loop cfg dec dec_batch target_batch dec_padding_mask [Suc di..<n]
           (s', c', cov', ls1) = Inr (sN, cN, covN, step_losses)"
    unfolding decode_loop_Cons bind_err_Inr_iff by (metis prod_cases4)
  from decode_step_losses [OF st] obtain masked where m: "ls1 = ls @ [masked]" by blast
  from decode_loop_losses [OF pre] have len: "length ls = length ls0 + di" by auto
  from decode_loop_losses [OF rest] obtain new where new: "step_losses = ls1 @ new" by blast
  from new m len have nth: "step_losses ! (length ls0 + di) = masked"
    by (simp add: nth_append)
  from decode_loop_losses [OF run] have tot: "length step_losses = length ls0 + n" by auto
  have "[0..<Suc di] = [0..<di] @ [di]" by simp
  then have "decode_loop cfg dec dec_batch target_batch dec_padding_mask [0..<Suc di]
               (s0, c0, cov0, ls0) = Inr (s', c', cov', ls @ [masked])"
    using pre st m by (simp add: decode_loop_append decode_loop_single bind_err_def)
  with pre len st m nth tot show ?thesis by blast
qed


text \<open>
  C2. With coverage mode disabled, whenever the decoding loop completes, the entry of
  example \<open>b\<close> in the loss of step \<open>di\<close> is the padding mask of \<open>b\<close> at \<open>di\<close> times
  \<open>- ln (p + eps)\<close>, where \<open>p\<close> is the value, at the gold id of \<open>b\<close> for position \<open>di\<close>, of
  the output distribution that the decoder returned at step \<open>di\<close> (called on the loop
  variables as the steps before \<open>di\<close> left them). An example whose mask is zero at \<open>di\<close>
  contributes zero, whatever that distribution is.
\<close>

theorem step_loss_without_coverage:
  assumes nocov: "\<not> is_coverage cfg"
    and run: "decode_loop cfg dec dec_batch target_batch dec_padding_mask
                (decode_range cfg max_dec_len) (s0, c0, cov0, []) = Inr (sN, cN, covN, step_losses)"
    and di: "di < nat (min max_dec_len (max_dec_steps cfg))"
  shows "\<exists>s c cov ls final_dist s1 c1 attn_dist p_gen next_coverage.
           decode_loop cfg dec dec_batch target_batch dec_padding_mask [0..<di] (s0, c0, cov0, [])
             = Inr (s, c, cov, ls)
         \<and> dec (map (\<lambda>row. row ! di) dec_batch) s c cov di
             = (final_dist, s1, c1, attn_dist, p_gen, next_coverage)
         \<and> length (step_losses ! di) = length target_batch
         \<and> (\<forall>b < length target_batch.
               step_losses ! di ! b
                 = dec_padding_mask ! b ! di
                     * (- ln (final_dist ! b ! nat (target_batch ! b ! di) + eps cfg))
               \<and> (dec_padding_mask ! b ! di = 0 \<longrightarrow> step_losses ! di ! b = 0))"
proof -
  from run have run': "decode_loop cfg dec dec_batch target_batch dec_padding_mask
      [0..<nat (min max_dec_len (max_dec_steps cfg))] (s0, c0, cov0, [])
        = Inr (sN, cN, covN, step_losses)"
    by (simp add: decode_range_def)
  from decode_loop_at [OF run' di] obtain s c cov ls s' c' cov' masked where
    pre: "decode_loop cfg dec dec_batch target_batch dec_padding_mask [0..<di] (s0, c0, cov0, [])
            = Inr (s, c, cov, ls)"
    and st: "decode_step cfg dec dec_batch target_batch dec_padding_mask di (s, c, cov, ls)
            = Inr (s', c', cov', ls @ [masked])"
    and nth: "step_losses ! di = masked"
    by auto
  obtain final_dist s1 c1 attn_dist p_gen next_coverage where
    d: "dec (map (\<lambda>row. row ! di) dec_batch) s c cov di
          = (final_dist, s1, c1, attn_dist, p_gen, next_coverage)"
    by (rule prod_cases6)
  from decode_step_parts [OF st d] nocov obtain gold where
    g: "gather final_dist (map (\<lambda>row. row ! di) target_batch) = Inr gold"
    and mr: "\<forall>row \<in> set dec_padding_mask. di < length row"
    and e: "elementwise (*) (map (\<lambda>p. - ln (p + eps cfg)) gold)
              (map (\<lambda>row. row ! di) dec_padding_mask) = Inr masked"
    by auto
  from gather_Inr [OF g] have gl: "length gold = length target_batch"
    and gv: "\<forall>b < length target_batch. gold ! b = final_dist ! b ! nat (target_batch ! b ! di)"
    by simp_all
  from elementwise_Inr [OF e] gl have ml: "length dec_padding_mask = length target_batch"
    and el: "length masked = length target_batch"
    and ev: "\<forall>b < length target_batch.
               masked ! b = (map (\<lambda>p. - ln (p + eps cfg)) gold) ! b
                              * (map (\<lambda>row. row ! di) dec_padding_mask) ! b"
    by simp_all
  have "step_losses ! di ! b
          = dec_padding_mask ! b ! di * (- ln (final_dist ! b ! nat (target_batch ! b ! di) + eps cfg))"
    if "b < length target_batch" for b
    using that ev gv gl ml nth by simp
  with pre d nth el show ?thesis by (intro exI conjI) auto
qed


text \<open>
  C3. With coverage mode enabled, whenever the decoding loop completes, the loss of
  example \<open>b\<close> at step \<open>di\<close> contains the term \<open>cov_loss_wt\<close> times the sum over the source
  positions of the element-wise minimum of the attention distribution of step \<open>di\<close> and
  the coverage with which the loop entered step \<open>di\<close>; the coverage with which the loop
  leaves step \<open>di\<close> is the next coverage that the decoder returned at that step.
\<close>

theorem step_loss_with_coverage:
  assumes withcov: "is_coverage cfg"
    and run: "decode_loop cfg dec dec_batch target_batch dec_padding_mask
                (decode_range cfg max_dec_len) (s0, c0, cov0, []) = Inr (sN, cN, covN, step_losses)"
    and di: "di < nat (min max_dec_len (max_dec_steps cfg))"
  shows "\<exists>s c cov ls final_dist s1 c1 attn_dist p_gen next_coverage ls1.
           decode_loop cfg dec dec_batch target_batch dec_padding_mask [0..<di] (s0, c0, cov0, [])
             = Inr (s, c, Some cov, ls)
         \<and> dec (map (\<lambda>row. row ! di) dec_batch) s c (Some cov) di
             = (final_dist, s1, c1, attn_dist, p_gen, next_coverage)
         \<and> decode_loop cfg dec dec_batch target_batch dec_padding_mask [0..<Suc di]
               (s0, c0, cov0, []) = Inr (s1, c1, next_coverage, ls1)
         \<and> length (step_losses ! di) = length target_batch
         \<and> (\<forall>b < length target_batch.
               step_losses ! di ! b
                 = (- ln (final_dist ! b ! nat (target_batch ! b ! di) + eps cfg)
                    + cov_loss_wt cfg
                        * sum_list (map (\<lambda>(a, c). min a c) (zip (attn_dist ! b) (cov ! b))))
                   * dec_padding_mask ! b ! di)"
proof -
  from run have run': "decode_loop cfg dec dec_batch target_batch dec_padding_mask
      [0..<nat (min max_dec_len (max_dec_steps cfg))] (s0, c0, cov0, [])
        = Inr (sN, cN, covN, step_losses)"
    by (simp add: decode_range_def)
  from decode_loop_at [OF run' di] obtain s c cv ls s' c' cov' masked where
    pre: "decode_loop cfg dec dec_batch target_batch dec_padding_mask [0..<di] (s0, c0, cov0, [])
            = Inr (s, c, cv, ls)"
    and st: "decode_step cfg dec dec_batch target_batch dec_padding_mask di (s, c, cv, ls)
            = Inr (s', c', cov', ls @ [masked])"
    and suc: "decode_loop cfg dec dec_batch target_batch dec_padding_mask [0..<Suc di]
               (s0, c0, cov0, []) = Inr (s', c', cov', ls @ [masked])"
    and nth: "step_losses ! di = masked"
    by auto
  obtain final_dist s1 c1 attn_dist p_gen next_coverage where
    d: "dec (map (\<lambda>row. row ! di) dec_batch) s c cv di
          = (final_dist, s1, c1, attn_dist, p_gen, next_coverage)"
    by (rule prod_cases6)
  from decode_step_parts [OF st d] withcov obtain gold step_loss cl where
    g: "gather final_dist (map (\<lambda>row. row ! di) target_batch) = Inr gold"
    and cl: "step_coverage_loss attn_dist cv = Inr cl"
    and add: "elementwise (+) (map (\<lambda>p. - ln (p + eps cfg)) gold)
                (map (\<lambda>x. cov_loss_wt cfg * x) cl) = Inr step_loss"
    and e: "elementwise (*) step_loss (map (\<lambda>row. row ! di) dec_padding_mask) = Inr masked"
    and r: "s' = s1" "c' = c1" "cov' = next_coverage"
    by auto
  from step_coverage_loss_nth [OF cl] obtain cov where cv: "cv = Some cov"
    and cll: "length cl = length attn_dist"
    and clv: "\<forall>b < length attn_dist.
                cl ! b = sum_list (map (\<lambda>(a, c). min a c) (zip (attn_dist ! b) (cov ! b)))"
    by blast
  from gather_Inr [OF g] have gl: "length gold = length target_batch"
    and gv: "\<forall>b < length target_batch. gold ! b = final_dist ! b ! nat (target_batch ! b ! di)"
    by simp_all
  from elementwise_Inr [OF add] gl cll have al: "length attn_dist = length target_batch"
    and sl: "length step_loss = length target_batch"
    and sv: "\<forall>b < length target_batch.
               step_loss ! b = (map (\<lambda>p. - ln (p + eps cfg)) gold) ! b
                                 + (map (\<lambda>x. cov_loss_wt cfg * x) cl) ! b"
    by simp_all
  from elementwise_Inr [OF e] sl have ml: "length dec_padding_mask = length target_batch"
    and el: "length masked = length target_batch"
    and ev: "\<forall>b < length target_batch.
               masked ! b = step_loss ! b * (map (\<lambda>row. row ! di) dec_padding_mask) ! b"
    by simp_all
  have "step_losses ! di ! b
          = (- ln (final_dist ! b ! nat (target_batch ! b ! di) + eps cfg)
             + cov_loss_wt cfg
                 * sum_list (map (\<lambda>(a, c). min a c) (zip (attn_dist ! b) (cov ! b))))
            * dec_padding_mask ! b ! di"
    if "b < length target_batch" for b
    using that ev sv gv clv gl al cll ml nth by simp
  with pre d suc nth el r cv show ?thesis by (intro exI conjI) auto
qed

lemma decode_loop_agree:
  assumes agree: "\<forall>di < nat (min max_dec_len (max_dec_steps cfg)). \<forall>s c cov.
             dec (map (\<lambda>row. row ! di) dec_batch) s c cov di
               = dec' (map (\<lambda>row. row ! di) dec_batch) s c cov di"
  shows "decode_loop cfg dec dec_batch target_batch dec_padding_mask
           (decode_range cfg max_dec_len) vars0
         = decode_loop cfg dec' dec_batch target_batch dec_padding_mask
             (decode_range cfg max_dec_len) vars0
       \<and> (\<forall>s c cov step_losses.
            decode_loop cfg dec dec_batch target_batch dec_padding_mask
              (decode_range cfg max_dec_len) vars0 = Inr (s, c, cov, step_losses)
            \<longrightarrow> length step_losses
                  = length (snd (snd (snd vars0))) + nat (min max_dec_len (max_dec_steps cfg)))"
proof -
  have step: "decode_step cfg dec dec_batch target_batch dec_padding_mask di vars
                = decode_step cfg dec' dec_batch target_batch dec_padding_mask di vars"
    if "di < nat (min max_dec_len (max_dec_steps cfg))" for di vars
  proof (cases "select_col dec_batch di")
    case (Inl e)
    then show ?thesis by (simp add: decode_step_def bind_err_def split: prod.splits)
  next
    case (Inr y)
    from select_col_Inr [OF Inr] have "y = map (\<lambda>row. row ! di) dec_batch" by simp
    with agree that have "dec y s c cov di = dec' y s c cov di" for s c cov by simp
    with Inr show ?thesis by (simp add: decode_step_def bind_err_def split: prod.splits)
  qed
  have loop: "\<forall>di \<in> set dis. di < nat (min max_dec_len (max_dec_steps cfg)) \<Longrightarrow>
      decode_loop cfg dec dec_batch target_batch dec_padding_mask dis vars
        = decode_loop cfg dec' dec_batch target_batch dec_padding_mask dis vars" for dis vars
  proof (induction dis arbitrary: vars)
    case Nil
    show ?case by (simp add: decode_loop_Nil)
  next
    case (Cons di dis)
    then show ?case by (simp add: decode_loop_Cons step bind_err_def split: sum.splits)
  qed
  have eq: "decode_loop cfg dec dec_batch target_batch dec_padding_mask
           (decode_range cfg max_dec_len) vars0
         = decode_loop cfg dec' dec_batch target_batch dec_padding_mask
             (decode_range cfg max_dec_len) vars0"
    by (rule loop) (simp add: decode_range_def)
  obtain s0 c0 cov0 ls0 where v: "vars0 = (s0, c0, cov0, ls0)" by (rule prod_cases4)
  have "length step_losses = length ls0 + nat (min max_dec_len (max_dec_steps cfg))"
    if "decode_loop cfg dec dec_batch target_batch dec_padding_mask
              (decode_range cfg max_dec_len) vars0 = Inr (s, c, cov, step_losses)"
    for s c cov step_losses
    using decode_loop_losses [OF that [unfolded v]] by (auto simp: decode_range_def)
  with eq v show ?thesis by simp
qed


lemma stack_dim1_Inr:
  assumes "stack_dim1 ts = Inr t"
  shows "ts \<noteq> [] \<and> (\<forall>u \<in> set ts. length u = length t)
       \<and> t = map (\<lambda>b. map (\<lambda>u. u ! b) ts) [0..<length t]"
  using assms
  by (cases ts) (auto simp: stack_dim1_def list_all_iff split: if_splits)

lemma batch_loss_Inr:
  assumes "batch_loss step_losses dec_lens_var = Inr loss"
  shows "step_losses \<noteq> []
       \<and> list_all (\<lambda>l. length l = length dec_lens_var) step_losses
       \<and> loss = mean (map (\<lambda>b. sum_list (map (\<lambda>l. l ! b) step_losses) / dec_lens_var ! b)
                        [0..<length dec_lens_var])"
proof -
  from assms obtain stacked avg where st: "stack_dim1 step_losses = Inr stacked"
    and e: "elementwise (/) (sum_dim1 stacked) dec_lens_var = Inr avg"
    and l: "loss = mean avg"
    by (auto simp: batch_loss_def bind_err_Inr_iff Let_def)
  from stack_dim1_Inr [OF st] have ne: "step_losses \<noteq> []"
    and len: "\<forall>u \<in> set step_losses. length u = length stacked"
    and sv: "stacked = map (\<lambda>b. map (\<lambda>u. u ! b) step_losses) [0..<length stacked]"
    by blast+
  from elementwise_Inr [OF e] have B: "length stacked = length dec_lens_var"
    and al: "length avg = length dec_lens_var"
    and av: "\<forall>b < length dec_lens_var. avg ! b = sum_dim1 stacked ! b / dec_lens_var ! b"
    by (simp_all add: sum_dim1_def)
  have "avg = map (\<lambda>b. sum_list (map (\<lambda>l. l ! b) step_losses) / dec_lens_var ! b)
                [0..<length dec_lens_var]"
  proof (rule nth_equalityI)
    show "length avg = length (map (\<lambda>b. sum_list (map (\<lambda>l. l ! b) step_losses) / dec_lens_var ! b)
                [0..<length dec_lens_var])"
      using al by simp
  next
    fix b assume "b < length avg"
    with al have b: "b < length dec_lens_var" by simp
    with B have "stacked ! b = map (\<lambda>u. u ! b) step_losses"
      by (subst sv) simp
    with b B av show "avg ! b = map (\<lambda>b. sum_list (map (\<lambda>l. l ! b) step_losses) / dec_lens_var ! b)
                [0..<length dec_lens_var] ! b"
      by (simp add: sum_dim1_def)
  qed
  with ne len B l show ?thesis by (simp add: list_all_iff)
qed

lemma parameters_zero_grad:
  "parameters (encoder (zero_grad m)) = parameters (encoder m)"
  "parameters (decoder (zero_grad m)) = parameters (decoder m)"
  "parameters (reduce_state (zero_grad m)) = parameters (reduce_state m)"
  by (simp_all add: zero_grad_def zero_group_def)

lemma decode_step_logged:
  "decode_step cfg (logged dec) dec_batch target_batch dec_padding_mask di ((s, lg), c, cov, ls)
     = (case decode_step cfg dec dec_batch target_batch dec_padding_mask di (s, c, cov, ls) of
          Inl e \<Rightarrow> Inl e
        | Inr (s', c', cov', ls') \<Rightarrow>
            Inr ((s', lg @ [(di, map (\<lambda>row. row ! di) dec_batch)]), c', cov', ls'))"
proof (cases "select_col dec_batch di")
  case (Inl e)
  then show ?thesis by (simp add: decode_step_def bind_err_def)
next
  case (Inr y)
  from select_col_Inr [OF Inr] have y: "y = map (\<lambda>row. row ! di) dec_batch" by simp
  obtain final_dist s1 c1 attn_dist p_gen next_coverage where
    d: "dec y s c cov di = (final_dist, s1, c1, attn_dist, p_gen, next_coverage)"
    by (rule prod_cases6)
  then have dl: "logged dec y (s, lg) c cov di
      = (final_dist, (s1, lg @ [(di, y)]), c1, attn_dist, p_gen, next_coverage)"
    by (simp add: logged_def)
  show ?thesis
    unfolding decode_step_def
    by (simp add: Inr d dl bind_err_def Let_def y [symmetric] split: sum.splits prod.splits)
qed


lemma decode_loop_logged:
  "decode_loop cfg (logged dec) dec_batch target_batch dec_padding_mask dis ((s, lg), c, cov, ls)
     = (case decode_loop cfg dec dec_batch target_batch dec_padding_mask dis (s, c, cov, ls) of
          Inl e \<Rightarrow> Inl e
        | Inr (s', c', cov', ls') \<Rightarrow>
            Inr ((s', lg @ map (\<lambda>di. (di, map (\<lambda>row. row ! di) dec_batch)) dis), c', cov', ls'))"
proof (induction dis arbitrary: s lg c cov ls)
  case Nil
  show ?case by (simp add: decode_loop_Nil)
next
  case (Cons di dis)
  show ?case
  proof (cases "decode_step cfg dec dec_batch target_batch dec_padding_mask di (s, c, cov, ls)")
    case (Inl e)
    then show ?thesis by (simp add: decode_loop_Cons decode_step_logged bind_err_def)
  next
    case (Inr v)
    obtain s1 c1 cov1 ls1 where v: "v = (s1, c1, cov1, ls1)" by (rule prod_cases4)
    show ?thesis
      by (simp add: decode_loop_Cons decode_step_logged Inr v bind_err_def Cons.IH
            split: sum.splits)
  qed
qed

lemma decode_step_state:
  assumes st: "decode_step cfg dec dec_batch target_batch dec_padding_mask di (s, c, cov, ls)
             = Inr (s', c', cov', ls')"
    and d: "dec (map (\<lambda>row. row ! di) dec_batch) s c cov di
             = (final_dist, s1, c1, attn_dist, p_gen, next_coverage)"
  shows "s' = s1 \<and> c' = c1 \<and> cov' = (if is_coverage cfg then next_coverage else cov)"
  using decode_step_parts [OF st d] by (auto split: if_splits)

text \<open>
  C5. Whenever the decoding loop completes, it has executed
  \<open>min(max_dec_len, max_dec_steps)\<close> steps (none when that bound is not positive), one
  step loss each. At every step \<open>di\<close> the decoder is called on column \<open>di\<close> of \<open>dec_batch\<close>
  (the gold tokens of position \<open>di\<close>) and on the loop variables as the steps before left
  them, and the state it returns is the state of the loop after the step. A decoder that
  logs its calls has logged exactly these, in order; and a decoder that answers
  differently to any other tokens gives the same run, so no prediction of the model is
  ever fed back.
\<close>

theorem teacher_forcing:
  assumes run: "decode_loop cfg dec dec_batch target_batch dec_padding_mask
                  (decode_range cfg max_dec_len) (s0, c0, cov0, [])
                = Inr (sN, cN, covN, step_losses)"
  shows "length step_losses = nat (min max_dec_len (max_dec_steps cfg))
       \<and> (\<forall>di < nat (min max_dec_len (max_dec_steps cfg)).
            \<exists>s c cov ls final_dist s1 c1 attn_dist p_gen next_coverage l.
              decode_loop cfg dec dec_batch target_batch dec_padding_mask [0..<di] (s0, c0, cov0, [])
                = Inr (s, c, cov, ls)
            \<and> length ls = di
            \<and> dec (map (\<lambda>row. row ! di) dec_batch) s c cov di
                = (final_dist, s1, c1, attn_dist, p_gen, next_coverage)
            \<and> decode_loop cfg dec dec_batch target_batch dec_padding_mask [0..<Suc di]
                  (s0, c0, cov0, [])
                = Inr (s1, c1, if is_coverage cfg then next_coverage else cov, ls @ [l]))
       \<and> (\<forall>lg. decode_loop cfg (logged dec) dec_batch target_batch dec_padding_mask
                  (decode_range cfg max_dec_len) ((s0, lg), c0, cov0, [])
                = Inr ((sN, lg @ map (\<lambda>di. (di, map (\<lambda>row. row ! di) dec_batch))
                                   [0..<nat (min max_dec_len (max_dec_steps cfg))]),
                       cN, covN, step_losses))
       \<and> (\<forall>dec'. (\<forall>di < nat (min max_dec_len (max_dec_steps cfg)). \<forall>s c cov.
                     dec (map (\<lambda>row. row ! di) dec_batch) s c cov di
                       = dec' (map (\<lambda>row. row ! di) dec_batch) s c cov di)
              \<longrightarrow> decode_loop cfg dec' dec_batch target_batch dec_padding_mask
                    (decode_range cfg max_dec_len) (s0, c0, cov0, [])
                  = Inr (sN, cN, covN, step_losses))"
proof -
  let ?n = "nat (min max_dec_len (max_dec_steps cfg))"
  from run have run': "decode_loop cfg dec dec_batch target_batch dec_padding_mask [0..<?n]
      (s0, c0, cov0, []) = Inr (sN, cN, covN, step_losses)"
    by (simp add: decode_range_def)
  from decode_loop_losses [OF run'] have len: "length step_losses = ?n" by auto
  have steps: "\<exists>s c cov ls final_dist s1 c1 attn_dist p_gen next_coverage l.
              decode_loop cfg dec dec_batch target_batch dec_padding_mask [0..<di] (s0, c0, cov0, [])
                = Inr (s, c, cov, ls)
            \<and> length ls = di
            \<and> dec (map (\<lambda>row. row ! di) dec_batch) s c cov di
                = (final_dist, s1, c1, attn_dist, p_gen, next_coverage)
            \<and> decode_loop cfg dec dec_batch target_batch dec_padding_mask [0..<Suc di]
                  (s0, c0, cov0, [])
                = Inr (s1, c1, if is_coverage cfg then next_coverage else cov, ls @ [l])"
    if di: "di < ?n" for di
  proof -
    from decode_loop_at [OF run' di] obtain s c cov ls s' c' cov' masked where
      pre: "decode_loop cfg dec dec_batch target_batch dec_padding_mask [0..<di] (s0, c0, cov0, [])
              = Inr (s, c, cov, ls)"
      and l: "length ls = di"
      and st: "decode_step cfg dec dec_batch target_batch dec_padding_mask di (s, c, cov, ls)
              = Inr (s', c', cov', ls @ [masked])"
      and suc: "decode_loop cfg dec dec_batch target_batch dec_padding_mask [0..<Suc di]
                 (s0, c0, cov0, []) = Inr (s', c', cov', ls @ [masked])"
      by auto
    obtain final_dist s1 c1 attn_dist p_gen next_coverage where
      d: "dec (map (\<lambda>row. row ! di) dec_batch) s c cov di
            = (final_dist, s1, c1, attn_dist, p_gen, next_coverage)"
      by (rule prod_cases6)
    from decode_step_state [OF st d] suc
    have "decode_loop cfg dec dec_batch target_batch dec_padding_mask [0..<Suc di]
                 (s0, c0, cov0, [])
            = Inr (s1, c1, if is_coverage cfg then next_coverage else cov, ls @ [masked])"
      by simp
    with pre l d show ?thesis by blast
  qed
  have lg: "decode_loop cfg (logged dec) dec_batch target_batch dec_padding_mask
                  (decode_range cfg max_dec_len) ((s0, lg), c0, cov0, [])
                = Inr ((sN, lg @ map (\<lambda>di. (di, map (\<lambda>row. row ! di) dec_batch)) [0..<?n]),
                       cN, covN, step_losses)" for lg
    by (simp add: decode_loop_logged run) (simp add: decode_range_def)
  have ag: "decode_loop cfg dec' dec_batch target_batch dec_padding_mask
                    (decode_range cfg max_dec_len) (s0, c0, cov0, [])
                  = Inr (sN, cN, covN, step_losses)"
    if "\<forall>di < ?n. \<forall>s c cov.
                     dec (map (\<lambda>row. row ! di) dec_batch) s c cov di
                       = dec' (map (\<lambda>row. row ! di) dec_batch) s c cov di" for dec'
    using decode_loop_agree [where dec = dec and dec' = dec' and dec_batch = dec_batch
        and max_dec_len = max_dec_len and cfg = cfg and target_batch = target_batch
        and dec_padding_mask = dec_padding_mask and ?vars0.0 = "(s0, c0, cov0, [])", OF that] run
    by simp
  from len steps lg ag show ?thesis by blast
qed

text \<open>
  C1. The loss that \<open>train_one_batch\<close> returns is the mean, over the examples \<open>b\<close> of the
  batch, of the sum over the decode steps of the (masked) step losses of \<open>b\<close> divided by
  \<open>dec_lens_var ! b\<close>, the true target length of \<open>b\<close>. For an example whose target
  length is the number of decode steps, this quotient is the unweighted mean of its step
  losses.
\<close>

theorem train_one_batch_loss:
  assumes tob: "train_one_batch env cfg self batch = Inr (self', loss)"
    and inp: "get_input_from_batch env batch
                = (enc_batch, enc_padding_mask, enc_lens, enc_batch_extend_vocab, extra_zeros,
                   c_t_1, coverage)"
    and out: "get_output_from_batch env batch
                = (dec_batch, dec_padding_mask, max_dec_len, dec_lens_var, target_batch)"
    and enc: "encoder_fwd env (parameters (encoder (model self))) enc_batch enc_lens
                = (encoder_outputs, encoder_feature, encoder_hidden)"
  shows "\<exists>sN cN covN step_losses.
           decode_loop cfg
             (\<lambda>y_t_1 s c cov di.
                decoder_fwd env (parameters (decoder (model self))) y_t_1 s encoder_outputs
                  encoder_feature enc_padding_mask c extra_zeros enc_batch_extend_vocab cov di)
             dec_batch target_batch dec_padding_mask (decode_range cfg max_dec_len)
             (reduce_state_fwd env (parameters (reduce_state (model self))) encoder_hidden,
              c_t_1, coverage, [])
           = Inr (sN, cN, covN, step_losses)
         \<and> length step_losses = nat (min max_dec_len (max_dec_steps cfg))
         \<and> list_all (\<lambda>l. length l = length dec_lens_var) step_losses
         \<and> loss = mean (map (\<lambda>b. sum_list (map (\<lambda>l. l ! b) step_losses) / dec_lens_var ! b)
                          [0..<length dec_lens_var])
         \<and> (\<forall>b < length dec_lens_var.
               dec_lens_var ! b = real (length step_losses) \<longrightarrow>
               sum_list (map (\<lambda>l. l ! b) step_losses) / dec_lens_var ! b
                 = mean (map (\<lambda>l. l ! b) step_losses))"
proof -
  let ?dec = "\<lambda>y_t_1 s c cov di.
                decoder_fwd env (parameters (decoder (model self))) y_t_1 s encoder_outputs
                  encoder_feature enc_padding_mask c extra_zeros enc_batch_extend_vocab cov di"
  let ?s0 = "reduce_state_fwd env (parameters (reduce_state (model self))) encoder_hidden"
  from tob inp out enc
  have fl: "forward_loss cfg ?dec dec_batch dec_padding_mask max_dec_len dec_lens_var target_batch
              ?s0 c_t_1 coverage = Inr loss"
    unfolding train_one_batch_def Let_def bind_err_def
    by (auto simp: parameters_zero_grad split: prod.split_asm sum.split_asm)
  then obtain sN cN covN step_losses where
    run: "decode_loop cfg ?dec dec_batch target_batch dec_padding_mask (decode_range cfg max_dec_len)
            (?s0, c_t_1, coverage, []) = Inr (sN, cN, covN, step_losses)"
    and bl: "batch_loss step_losses dec_lens_var = Inr loss"
    unfolding forward_loss_def bind_err_Inr_iff by auto
  from decode_loop_losses [OF run]
  have n: "length step_losses = nat (min max_dec_len (max_dec_steps cfg))"
    by (auto simp: decode_range_def)
  note b = batch_loss_Inr [OF bl]
  have "sum_list (map (\<lambda>l. l ! b) step_losses) / dec_lens_var ! b
                 = mean (map (\<lambda>l. l ! b) step_losses)"
    if "dec_lens_var ! b = real (length step_losses)" for b
    using that by (simp add: mean_def)
  with run n b show ?thesis by blast
qed

subsection \<open>The two-example batch, evaluated\<close>

lemma pair_loop:
  "decode_loop pair_config pair_decoder pair_dec_batch pair_target_batch pair_padding_mask
     (decode_range pair_config 2) ((), [[0], [0]], None, [])
   = Inr ((), [[0], [0]], None, [[- ln (3/4), 0], [- ln (3/4), 0]])"
  by (simp add: decode_loop_def decode_range_def pair_config_def small_config_def
      decode_step_def pair_decoder_def pair_dec_batch_def pair_target_batch_def
      pair_padding_mask_def select_col_def gather_def elementwise_def bind_err_def upt_rec)

lemma pair_loop_coverage:
  "decode_loop (pair_config\<lparr>is_coverage := True\<rparr>) pair_decoder pair_dec_batch
     pair_target_batch pair_padding_mask (decode_range (pair_config\<lparr>is_coverage := True\<rparr>) 2)
     ((), [[0], [0]], Some [[0, 0], [0, 0]], [])
   = Inr ((), [[0], [0]], Some [[1, 1], [1/2, 3/2]], [[- ln (3/4), 0], [1 - ln (3/4), 0]])"
  by (simp add: decode_loop_def decode_range_def pair_config_def small_config_def
      decode_step_def pair_decoder_def pair_dec_batch_def pair_target_batch_def
      pair_padding_mask_def select_col_def gather_def elementwise_def bind_err_def upt_rec
      step_coverage_loss_def elementwise2_def sum_dim1_def)

lemma pair_loop_other:
  "decode_loop pair_config other_decoder pair_dec_batch pair_target_batch pair_padding_mask
     (decode_range pair_config 2) ((), [[0], [0]], None, [])
   = Inr ((), [[0], [0]], None, [[- ln (3/4), 0], [- ln (3/4), 0]])"
  by (simp add: decode_loop_def decode_range_def pair_config_def small_config_def
      decode_step_def other_decoder_def pair_decoder_def pair_dec_batch_def pair_target_batch_def
      pair_padding_mask_def select_col_def gather_def elementwise_def bind_err_def upt_rec)

lemma pair_range: "nat (min 2 (max_dec_steps pair_config)) = 2"
  "nat (min 2 (max_dec_steps (pair_config\<lparr>is_coverage := True\<rparr>))) = 2"
  by (simp_all add: pair_config_def small_config_def)

theorem step_loss_without_coverage_witness:
  "\<not> is_coverage pair_config
   \<and> decode_loop pair_config pair_decoder pair_dec_batch pair_target_batch pair_padding_mask
       (decode_range pair_config 2) ((), [[0], [0]], None, [])
       = Inr ((), [[0], [0]], None, [[- ln (3/4), 0], [- ln (3/4), 0]])
   \<and> (1 :: nat) < nat (min 2 (max_dec_steps pair_config))
   \<and> length ([[- ln (3/4), 0], [- ln (3/4), 0 :: real]] ! 1) = length pair_target_batch
   \<and> pair_padding_mask ! 1 ! 1 = 0
   \<and> [[- ln (3/4), 0], [- ln (3/4), 0 :: real]] ! 1 ! 1 = 0"
proof -
  have a: "\<not> is_coverage pair_config" by (simp add: pair_config_def small_config_def)
  have c: "(1 :: nat) < nat (min 2 (max_dec_steps pair_config))" by (simp add: pair_range)
  have b: "(1 :: nat) < length pair_target_batch" by (simp add: pair_target_batch_def)
  have m: "pair_padding_mask ! 1 ! 1 = 0" by (simp add: pair_padding_mask_def)
  from step_loss_without_coverage [OF a pair_loop c] b m
  have "length ([[- ln (3/4), 0], [- ln (3/4), 0 :: real]] ! 1) = length pair_target_batch
      \<and> [[- ln (3/4), 0], [- ln (3/4), 0 :: real]] ! 1 ! 1 = 0"
    by blast
  with a c m pair_loop show ?thesis by blast
qed


lemma pair_train_one_batch:
  "train_one_batch pair_env pair_config small_train ()
     = Inr (small_train\<lparr>model := zero_grad (model small_train), self_norm := Some 0\<rparr>,
            - (ln (3/4) / 2))"
  apply (simp add: train_one_batch_def forward_loss_def pair_loop)
  apply (simp add: pair_env_def small_env_def pair_loop parameters_zero_grad)
  apply (simp add: batch_loss_def stack_dim1_def sum_dim1_def elementwise_def mean_def bind_err_def
      clip_gradients_def pair_config_def small_config_def upt_rec)
  done

theorem train_one_batch_loss_witness:
  "train_one_batch pair_env pair_config small_train ()
     = Inr (small_train\<lparr>model := zero_grad (model small_train), self_norm := Some 0\<rparr>,
            - (ln (3/4) / 2))
   \<and> get_output_from_batch pair_env ()
       = (pair_dec_batch, pair_padding_mask, 2, [2, 1], pair_target_batch)
   \<and> (- (ln (3/4) / 2) :: real)
       = mean (map (\<lambda>b. sum_list (map (\<lambda>l. l ! b) [[- ln (3/4), 0], [- ln (3/4), 0]]) / [2, 1] ! b)
                [0..<length [2, 1 :: real]])
   \<and> sum_list (map (\<lambda>l. l ! 0) [[- ln (3/4), 0], [- ln (3/4), 0 :: real]]) / [2, 1] ! 0
       = mean (map (\<lambda>l. l ! 0) [[- ln (3/4), 0], [- ln (3/4), 0 :: real]])"
proof -
  have inp: "get_input_from_batch pair_env ()
               = ([[0], [0]], [[1], [1]], [1, 1], None, None, [[0], [0]], None)"
    and out: "get_output_from_batch pair_env ()
               = (pair_dec_batch, pair_padding_mask, 2, [2, 1], pair_target_batch)"
    and enc: "encoder_fwd pair_env (parameters (encoder (model small_train))) [[0], [0]] [1, 1]
               = ((), (), ())"
    and dec: "(\<lambda>y_t_1 s c cov di.
                decoder_fwd pair_env (parameters (decoder (model small_train))) y_t_1 s () ()
                  [[1], [1]] c None None cov di) = pair_decoder"
    by (simp_all add: pair_env_def small_env_def)
  have rs: "reduce_state_fwd pair_env (parameters (reduce_state (model small_train))) () = ()"
    by simp
  from train_one_batch_loss [OF pair_train_one_batch inp out enc]
  obtain sN cN covN step_losses where
    run: "decode_loop pair_config pair_decoder pair_dec_batch pair_target_batch pair_padding_mask
            (decode_range pair_config 2) ((), [[0], [0]], None, [])
          = Inr (sN, cN, covN, step_losses)"
    and loss: "- (ln (3/4) / 2)
          = mean (map (\<lambda>b. sum_list (map (\<lambda>l. l ! b) step_losses) / [2, 1] ! b)
                   [0..<length [2, 1 :: real]])"
    and avg: "\<forall>b < length [2, 1 :: real].
               [2, 1] ! b = real (length step_losses) \<longrightarrow>
               sum_list (map (\<lambda>l. l ! b) step_losses) / [2, 1] ! b
                 = mean (map (\<lambda>l. l ! b) step_losses)"
    unfolding dec rs by blast
  from run pair_loop have sl: "step_losses = [[- ln (3/4), 0], [- ln (3/4), 0]]" by simp
  have "(0 :: nat) < length [2, 1 :: real]" and "[2, 1] ! 0 = real (length step_losses)"
    unfolding sl by simp_all
  with avg have "sum_list (map (\<lambda>l. l ! 0) step_losses) / [2, 1] ! 0
                 = mean (map (\<lambda>l. l ! 0) step_losses)"
    by blast
  with loss out pair_train_one_batch show ?thesis unfolding sl by blast
qed

theorem step_loss_with_coverage_witness:
  "is_coverage (pair_config\<lparr>is_coverage := True\<rparr>)
   \<and> decode_loop (pair_config\<lparr>is_coverage := True\<rparr>) pair_decoder pair_dec_batch
       pair_target_batch pair_padding_mask (decode_range (pair_config\<lparr>is_coverage := True\<rparr>) 2)
       ((), [[0], [0]], Some [[0, 0], [0, 0]], [])
       = Inr ((), [[0], [0]], Some [[1, 1], [1/2, 3/2]], [[- ln (3/4), 0], [1 - ln (3/4), 0]])
   \<and> (1 :: nat) < nat (min 2 (max_dec_steps (pair_config\<lparr>is_coverage := True\<rparr>)))
   \<and> decode_loop (pair_config\<lparr>is_coverage := True\<rparr>) pair_decoder pair_dec_batch
       pair_target_batch pair_padding_mask [0..<1] ((), [[0], [0]], Some [[0, 0], [0, 0]], [])
       = Inr ((), [[0], [0]], Some [[1/2, 1/2], [1/4, 3/4]], [[- ln (3/4), 0]])
   \<and> [[- ln (3/4), 0], [1 - ln (3/4), 0 :: real]] ! 1 ! 0
       = (- ln ([[1/2, 1/2], [1/4, 3/4]] ! 0 ! nat (pair_target_batch ! 0 ! 1)
                + eps (pair_config\<lparr>is_coverage := True\<rparr>))
          + cov_loss_wt (pair_config\<lparr>is_coverage := True\<rparr>)
              * sum_list (map (\<lambda>(a, c). min a c)
                  (zip ([[1/2, 1/2], [1/4, 3/4]] ! 0) ([[1/2, 1/2], [1/4, 3/4]] ! 0))))
         * pair_padding_mask ! 0 ! 1"
proof -
  let ?cfg = "pair_config\<lparr>is_coverage := True\<rparr>"
  have a: "is_coverage ?cfg" by simp
  have c: "(1 :: nat) < nat (min 2 (max_dec_steps ?cfg))" by (simp add: pair_range)
  have pre: "decode_loop ?cfg pair_decoder pair_dec_batch
       pair_target_batch pair_padding_mask [0..<1] ((), [[0], [0]], Some [[0, 0], [0, 0]], [])
       = Inr ((), [[0], [0]], Some [[1/2, 1/2], [1/4, 3/4]], [[- ln (3/4), 0]])"
    by (simp add: decode_loop_def pair_config_def small_config_def
      decode_step_def pair_decoder_def pair_dec_batch_def pair_target_batch_def
      pair_padding_mask_def select_col_def gather_def elementwise_def bind_err_def upt_rec
      step_coverage_loss_def elementwise2_def sum_dim1_def)
  have b: "(0 :: nat) < length pair_target_batch" by (simp add: pair_target_batch_def)
  from step_loss_with_coverage [OF a pair_loop_coverage c]
  obtain s c' cov ls final_dist s1 c1 attn_dist p_gen next_coverage where
    p: "decode_loop ?cfg pair_decoder pair_dec_batch pair_target_batch pair_padding_mask [0..<1]
          ((), [[0], [0]], Some [[0, 0], [0, 0]], []) = Inr (s, c', Some cov, ls)"
    and d: "pair_decoder (map (\<lambda>row. row ! 1) pair_dec_batch) s c' (Some cov) 1
          = (final_dist, s1, c1, attn_dist, p_gen, next_coverage)"
    and v: "\<forall>b < length pair_target_batch.
               [[- ln (3/4), 0], [1 - ln (3/4), 0]] ! 1 ! b
                 = (- ln (final_dist ! b ! nat (pair_target_batch ! b ! 1) + eps ?cfg)
                    + cov_loss_wt ?cfg
                        * sum_list (map (\<lambda>(a, c). min a c) (zip (attn_dist ! b) (cov ! b))))
                   * pair_padding_mask ! b ! 1"
    by (elim exE conjE) (rule that, assumption+)
  from p pre have cov: "cov = [[1/2, 1/2], [1/4, 3/4]]" by simp
  from d have fd: "final_dist = [[1/2, 1/2], [1/4, 3/4]]" "attn_dist = [[1/2, 1/2], [1/4, 3/4]]"
    by (auto simp: pair_decoder_def)
  from v b have "[[- ln (3/4), 0], [1 - ln (3/4), 0]] ! 1 ! 0
                 = (- ln (final_dist ! 0 ! nat (pair_target_batch ! 0 ! 1) + eps ?cfg)
                    + cov_loss_wt ?cfg
                        * sum_list (map (\<lambda>(a, c). min a c) (zip (attn_dist ! 0) (cov ! 0))))
                   * pair_padding_mask ! 0 ! 1"
    by blast
  with a c pre pair_loop_coverage show ?thesis unfolding cov fd by blast
qed

lemma pair_logged_calls:
  "map (\<lambda>di. (di, map (\<lambda>row. row ! di) pair_dec_batch))
     [0..<nat (min 2 (max_dec_steps pair_config))] = [(0, [1, 1]), (1, [0, 1])]"
  by (simp add: pair_range pair_dec_batch_def upt_rec)

theorem teacher_forcing_witness:
  "decode_loop pair_config pair_decoder pair_dec_batch pair_target_batch pair_padding_mask
     (decode_range pair_config 2) ((), [[0], [0]], None, [])
     = Inr ((), [[0], [0]], None, [[- ln (3/4), 0], [- ln (3/4), 0]])
   \<and> length [[- ln (3/4), 0], [- ln (3/4), 0 :: real]] = nat (min 2 (max_dec_steps pair_config))
   \<and> decode_loop pair_config (logged pair_decoder) pair_dec_batch pair_target_batch
       pair_padding_mask (decode_range pair_config 2) (((), []), [[0], [0]], None, [])
     = Inr (((), [(0, [1, 1]), (1, [0, 1])]), [[0], [0]], None,
            [[- ln (3/4), 0], [- ln (3/4), 0]])
   \<and> pair_decoder [0, 0] () [] None 0 \<noteq> other_decoder [0, 0] () [] None 0
   \<and> decode_loop pair_config other_decoder pair_dec_batch pair_target_batch pair_padding_mask
       (decode_range pair_config 2) ((), [[0], [0]], None, [])
     = Inr ((), [[0], [0]], None, [[- ln (3/4), 0], [- ln (3/4), 0]])"
proof -
  note t = teacher_forcing [OF pair_loop]
  have ne: "pair_decoder [0, 0] () [] None 0 \<noteq> other_decoder [0, 0] () [] None 0"
    by (simp add: other_decoder_def pair_decoder_def pair_dec_batch_def)
  have agree: "\<forall>di < nat (min 2 (max_dec_steps pair_config)). \<forall>s c cov.
             pair_decoder (map (\<lambda>row. row ! di) pair_dec_batch) s c cov di
               = other_decoder (map (\<lambda>row. row ! di) pair_dec_batch) s c cov di"
    by (simp add: other_decoder_def)
  from t have len: "length [[- ln (3/4), 0], [- ln (3/4), 0 :: real]]
                      = nat (min 2 (max_dec_steps pair_config))"
    by blast
  from t have "decode_loop pair_config (logged pair_decoder) pair_dec_batch pair_target_batch
       pair_padding_mask (decode_range pair_config 2) (((), []), [[0], [0]], None, [])
     = Inr (((), [] @ map (\<lambda>di. (di, map (\<lambda>row. row ! di) pair_dec_batch))
                        [0..<nat (min 2 (max_dec_steps pair_config))]),
            [[0], [0]], None, [[- ln (3/4), 0], [- ln (3/4), 0]])"
    by blast
  then have lg: "decode_loop pair_config (logged pair_decoder) pair_dec_batch pair_target_batch
       pair_padding_mask (decode_range pair_config 2) (((), []), [[0], [0]], None, [])
     = Inr (((), [(0, [1, 1]), (1, [0, 1])]), [[0], [0]], None,
            [[- ln (3/4), 0], [- ln (3/4), 0]])"
    by (simp only: pair_logged_calls append_Nil)
  from t agree have "decode_loop pair_config other_decoder pair_dec_batch pair_target_batch
       pair_padding_mask (decode_range pair_config 2) ((), [[0], [0]], None, [])
     = Inr ((), [[0], [0]], None, [[- ln (3/4), 0], [- ln (3/4), 0]])"
    by blast
  with pair_loop len lg ne show ?thesis by blast
qed

subsection \<open>Gradient clipping\<close>

text \<open>
  What train.py decides about clipping (lines 133-137): each parameter group is clipped
  by a call of its own, on its own gradient and with the configured maximum norm; the
  parameters are not touched, and the norm that is kept is the one of the encoder group.
  What a call does to a gradient is the library's.
\<close>

lemma clip_gradients_independent:
  assumes "clip_gradients env cfg m = (m', total_norm)"
  shows "grad (encoder m') = fst (clip_grad_norm env (grad (encoder m)) (max_grad_norm cfg))
       \<and> grad (decoder m') = fst (clip_grad_norm env (grad (decoder m)) (max_grad_norm cfg))
       \<and> grad (reduce_state m')
           = fst (clip_grad_norm env (grad (reduce_state m)) (max_grad_norm cfg))
       \<and> parameters (encoder m') = parameters (encoder m)
       \<and> parameters (decoder m') = parameters (decoder m)
       \<and> parameters (reduce_state m') = parameters (reduce_state m)
       \<and> total_norm = snd (clip_grad_norm env (grad (encoder m)) (max_grad_norm cfg))"
  using assms by (auto simp: clip_gradients_def split: prod.splits)

end
